theory Spec2Isabelle
  imports Main
begin

section \<open>Python values, errors and the HTTP transport\<close>

text \<open>
  Values that the client handles are decoded JSON documents and the few Python objects
  the client builds itself (tuples, datetimes). \<open>PNone\<close> is Python's \<open>None\<close>
  (JSON \<open>null\<close>). JSON numbers are modelled as integers; a \<open>PDatetime\<close> carries
  an instant in seconds.
\<close>

datatype pyval =
    PNone
  | PBool bool
  | PInt int
  | PStr string
  | PList "pyval list"
  | PDict "(pyval \<times> pyval) list"
  | PTuple "pyval list"
  | PDatetime int

text \<open>Every exception the client can raise is a value of this type.\<close>

datatype error =
    PermissionError
  | KeyError
  | TypeError
  | IndexError
  | ValueError
  | JSONDecodeError
  | AttributeError
  | RequestException

text \<open>
  The authorization header of a request: \<open>Basic\<close> carries the pair that
  \<open>_get_base64_auth\<close> encodes, \<open>Bearer\<close> the value formatted into
  \<open>f'Bearer {token}'\<close> (which is \<open>PNone\<close> when the token fetch returned
  \<open>None\<close>).
\<close>

datatype auth_header = Basic string string | Bearer pyval

record request =
  meth :: string
  url :: string
  headers :: auth_header
  params :: "(string \<times> pyval) list option"
  json_payload :: "pyval option"

text \<open>
  A response of the \<open>requests\<close> library: \<open>json_body\<close> is \<open>None\<close> when the
  body does not decode as JSON (then \<open>r.json()\<close> raises).
\<close>

record response =
  status_code :: int
  json_body :: "pyval option"
  text_body :: string

text \<open>
  \<open>Response.ok\<close> of the \<open>requests\<close> library: true unless
  \<open>raise_for_status\<close> would raise, which it does for 400 to 599.
\<close>

definition ok :: "response \<Rightarrow> bool" where
  "ok r = (\<not> (400 \<le> status_code r \<and> status_code r < 600))"

definition r_json :: "response \<Rightarrow> error + pyval" where
  "r_json r = (case json_body r of None \<Rightarrow> Inl JSONDecodeError | Some j \<Rightarrow> Inr j)"

text \<open>
  The environment of a client: the remote side answers a request as a function of
  the requests sent before it, and the clock gives the n-th reading of
  \<open>datetime.utcnow()\<close>. \<open>strptime\<close> and \<open>strftime\<close> stand for the two
  \<open>datetime\<close> library calls with the format strings of the source fixed.
\<close>

record env =
  respond :: "request list \<Rightarrow> request \<Rightarrow> response"
  utcnow :: "nat \<Rightarrow> int"
  strptime :: "string \<Rightarrow> int option"
  strftime :: "int \<Rightarrow> string"

text \<open>
  The client object together with the trace of its effects: the requests sent so far,
  the number of clock readings taken, and the lines printed.
\<close>

record spotify =
  client_id :: string
  client_secret :: string
  refresh_token :: "string option"
  access_token :: pyval
  token_expires :: "int option"
  sent :: "request list"
  clock_reads :: nat
  stdout :: "string list"

type_synonym 'a result = "(error + 'a) \<times> spotify"

definition http :: "env \<Rightarrow> request \<Rightarrow> spotify \<Rightarrow> response \<times> spotify" where
  "http e rq s = (respond e (sent s) rq, s\<lparr>sent := sent s @ [rq]\<rparr>)"

definition datetime_utcnow :: "env \<Rightarrow> spotify \<Rightarrow> int \<times> spotify" where
  "datetime_utcnow e s = (utcnow e (clock_reads s), s\<lparr>clock_reads := Suc (clock_reads s)\<rparr>)"

definition print :: "string \<Rightarrow> spotify \<Rightarrow> spotify" where
  "print line s = s\<lparr>stdout := stdout s @ [line]\<rparr>"

subsection \<open>Python operators on values\<close>

text \<open>An integer index into a sequence; a negative index counts from the end.\<close>

definition py_index :: "'a list \<Rightarrow> int \<Rightarrow> error + 'a" where
  "py_index xs i =
     (if 0 \<le> i then
        (if nat i < length xs then Inr (xs ! nat i) else Inl IndexError)
      else
        (if nat (- i) \<le> length xs then Inr (xs ! (length xs - nat (- i))) else Inl IndexError))"

text \<open>\<open>v[k]\<close>: a dict looks the key up, a list, tuple or string takes an integer index.\<close>

fun subscript :: "pyval \<Rightarrow> pyval \<Rightarrow> error + pyval" where
  "subscript (PDict kvs) k = (case map_of kvs k of None \<Rightarrow> Inl KeyError | Some v \<Rightarrow> Inr v)"
| "subscript (PList xs) (PInt i) = py_index xs i"
| "subscript (PTuple xs) (PInt i) = py_index xs i"
| "subscript (PStr cs) (PInt i) =
     (case py_index cs i of Inl err \<Rightarrow> Inl err | Inr c \<Rightarrow> Inr (PStr [c]))"
| "subscript _ _ = Inl TypeError"

text \<open>\<open>d[k] = v\<close> on a dict: an existing key keeps its place, a new key goes last.\<close>

fun dict_set :: "('k \<times> 'v) list \<Rightarrow> 'k \<Rightarrow> 'v \<Rightarrow> ('k \<times> 'v) list" where
  "dict_set [] k v = [(k, v)]"
| "dict_set ((k', v') # kvs) k v =
     (if k' = k then (k, v) # kvs else (k', v') # dict_set kvs k v)"

fun store_subscript :: "pyval \<Rightarrow> pyval \<Rightarrow> pyval \<Rightarrow> error + pyval" where
  "store_subscript (PDict kvs) k v = Inr (PDict (dict_set kvs k v))"
| "store_subscript _ _ _ = Inl TypeError"

text \<open>\<open>for x in v\<close>: the elements of a list or tuple, the keys of a dict, the characters of a string.\<close>

fun py_iter :: "pyval \<Rightarrow> error + pyval list" where
  "py_iter (PList xs) = Inr xs"
| "py_iter (PTuple xs) = Inr xs"
| "py_iter (PDict kvs) = Inr (map fst kvs)"
| "py_iter (PStr cs) = Inr (map (\<lambda>c. PStr [c]) cs)"
| "py_iter _ = Inl TypeError"

fun is_substring :: "string \<Rightarrow> string \<Rightarrow> bool" where
  "is_substring k [] = (k = [])"
| "is_substring k (c # cs) = (take (length k) (c # cs) = k \<or> is_substring k cs)"

text \<open>\<open>k in v\<close> for a string \<open>k\<close>.\<close>

fun py_contains :: "string \<Rightarrow> pyval \<Rightarrow> error + bool" where
  "py_contains k (PDict kvs) = Inr (PStr k \<in> set (map fst kvs))"
| "py_contains k (PList xs) = Inr (PStr k \<in> set xs)"
| "py_contains k (PTuple xs) = Inr (PStr k \<in> set xs)"
| "py_contains k (PStr cs) = Inr (is_substring k cs)"
| "py_contains k _ = Inl TypeError"

text \<open>A string operand of \<open>+\<close> or \<open>join\<close>, and an integer operand (\<open>bool\<close> is an \<open>int\<close>).\<close>

fun py_str :: "pyval \<Rightarrow> error + string" where
  "py_str (PStr cs) = Inr cs"
| "py_str _ = Inl TypeError"

fun py_num :: "pyval \<Rightarrow> error + int" where
  "py_num (PInt n) = Inr n"
| "py_num (PBool b) = Inr (if b then 1 else 0)"
| "py_num _ = Inl TypeError"

text \<open>Truth value of an object, and \<open>len\<close>.\<close>

fun truthy :: "pyval \<Rightarrow> bool" where
  "truthy PNone = False"
| "truthy (PBool b) = b"
| "truthy (PInt n) = (n \<noteq> 0)"
| "truthy (PStr cs) = (cs \<noteq> [])"
| "truthy (PList xs) = (xs \<noteq> [])"
| "truthy (PDict kvs) = (kvs \<noteq> [])"
| "truthy (PTuple xs) = (xs \<noteq> [])"
| "truthy (PDatetime t) = True"

fun py_len :: "pyval \<Rightarrow> error + nat" where
  "py_len (PStr cs) = Inr (length cs)"
| "py_len (PList xs) = Inr (length xs)"
| "py_len (PDict kvs) = Inr (length kvs)"
| "py_len (PTuple xs) = Inr (length xs)"
| "py_len _ = Inl TypeError"

text \<open>Decimal rendering of an integer, as an f-string formats it.\<close>

fun str_nat :: "nat \<Rightarrow> string" where
  "str_nat n =
     (if n < 10 then [''0123456789'' ! n]
      else str_nat (n div 10) @ [''0123456789'' ! (n mod 10)])"

declare str_nat.simps [simp del]

definition str_int :: "int \<Rightarrow> string" where
  "str_int i = (if i < 0 then CHR ''-'' # str_nat (nat (- i)) else str_nat (nat i))"

section \<open>Constants of the module\<close>

definition BASE_URL :: string where
  "BASE_URL = ''https://api.spotify.com/v1''"

definition AUTH_PATH :: string where
  "AUTH_PATH = ''/api/token''"

definition PLAYER_PATH :: string where
  "PLAYER_PATH = ''/me/player''"

definition TRACKS_PATH :: string where
  "TRACKS_PATH = ''/tracks''"

definition METHODS :: "string list" where
  "METHODS = [''get'', ''post'', ''put'']"

section \<open>Authorization (spotifyclient/client.py)\<close>

definition init :: "string \<Rightarrow> string \<Rightarrow> string option \<Rightarrow> spotify" where
  "init cid secret rt =
     \<lparr>client_id = cid, client_secret = secret, refresh_token = rt,
      access_token = PNone, token_expires = None,
      sent = [], clock_reads = 0, stdout = []\<rparr>"

definition get_generic_auth_params :: "(string \<times> pyval) list" where
  "get_generic_auth_params = [(''grant_type'', PStr ''client_credentials'')]"

definition get_user_auth_params :: "spotify \<Rightarrow> error + (string \<times> pyval) list" where
  "get_user_auth_params s =
     (case refresh_token s of
        None \<Rightarrow> Inl PermissionError
      | Some rt \<Rightarrow> Inr [(''grant_type'', PStr ''refresh_token''), (''refresh_token'', PStr rt)])"

definition auth_request :: "spotify \<Rightarrow> (string \<times> pyval) list \<Rightarrow> request" where
  "auth_request s auth_params =
     \<lparr>meth = ''post'', url = ''https://accounts.spotify.com'' @ AUTH_PATH,
      headers = Basic (client_id s) (client_secret s),
      params = Some auth_params, json_payload = None\<rparr>"

text \<open>
  The part of \<open>_get_access_token\<close> after the cache check: the call to the token
  endpoint. Instants and durations are unbounded integers of seconds: a fractional
  \<open>expires_in\<close>, and the \<open>OverflowError\<close> that \<open>timedelta\<close> and the addition
  raise on an \<open>expires_in\<close> beyond their range, are outside the model.
\<close>

definition fetch_access_token ::
  "env \<Rightarrow> (string \<times> pyval) list \<Rightarrow> spotify \<Rightarrow> (pyval \<times> int option) result" where
  "fetch_access_token e auth_params s =
     (let (r, s1) = http e (auth_request s auth_params) s in
      if 200 \<le> status_code r \<and> status_code r < 400 then
        (case r_json r of
           Inl err \<Rightarrow> (Inl err, s1)
         | Inr response_auth \<Rightarrow>
             (case py_contains ''access_token'' response_auth of
                Inl err \<Rightarrow> (Inl err, s1)
              | Inr False \<Rightarrow> (Inr (PNone, None), s1)
              | Inr True \<Rightarrow>
                  (case subscript response_auth (PStr ''access_token'') of
                     Inl err \<Rightarrow> (Inl err, s1)
                   | Inr tok \<Rightarrow>
                       (let s2 = s1\<lparr>access_token := tok\<rparr>;
                            (now, s3) = datetime_utcnow e s2 in
                        case subscript response_auth (PStr ''expires_in'') of
                          Inl err \<Rightarrow> (Inl err, s3)
                        | Inr secs \<Rightarrow>
                            (case py_num secs of
                               Inl err \<Rightarrow> (Inl err, s3)
                             | Inr n \<Rightarrow>
                                 (let s4 = s3\<lparr>token_expires := Some (now + n)\<rparr>
                                  in (Inr (access_token s4, token_expires s4), s4)))))))
      else (Inr (PNone, None), s1))"

definition get_access_token ::
  "env \<Rightarrow> (string \<times> pyval) list \<Rightarrow> spotify \<Rightarrow> (pyval \<times> int option) result" where
  "get_access_token e auth_params s =
     (if access_token s \<noteq> PNone then
        (let (now, s1) = datetime_utcnow e s in
         case token_expires s of
           None \<Rightarrow> (Inl TypeError, s1)
         | Some expires \<Rightarrow>
             if expires > now then (Inr (access_token s1, token_expires s1), s1)
             else fetch_access_token e auth_params s1)
      else fetch_access_token e auth_params s)"

definition get_generic_access_token :: "env \<Rightarrow> spotify \<Rightarrow> pyval result" where
  "get_generic_access_token e s =
     (case get_access_token e get_generic_auth_params s of
        (Inl err, s1) \<Rightarrow> (Inl err, s1)
      | (Inr (tok, _), s1) \<Rightarrow> (Inr tok, s1))"

definition get_user_access_token :: "env \<Rightarrow> spotify \<Rightarrow> pyval result" where
  "get_user_access_token e s =
     (case get_user_auth_params s of
        Inl err \<Rightarrow> (Inl err, s)
      | Inr auth_params \<Rightarrow>
          (case get_access_token e auth_params s of
             (Inl err, s1) \<Rightarrow> (Inl err, s1)
           | (Inr (tok, _), s1) \<Rightarrow> (Inr tok, s1)))"

definition get_api_headers :: "env \<Rightarrow> spotify \<Rightarrow> auth_header result" where
  "get_api_headers e s =
     (case get_generic_access_token e s of
        (Inl err, s1) \<Rightarrow> (Inl err, s1)
      | (Inr tok, s1) \<Rightarrow> (Inr (Bearer tok), s1))"

definition get_user_api_headers :: "env \<Rightarrow> spotify \<Rightarrow> auth_header result" where
  "get_user_api_headers e s =
     (case get_user_access_token e s of
        (Inl err, s1) \<Rightarrow> (Inl err, s1)
      | (Inr tok, s1) \<Rightarrow> (Inr (Bearer tok), s1))"

section \<open>Request dispatch (spotifyclient/client.py)\<close>

definition player_request ::
  "string \<Rightarrow> string \<Rightarrow> auth_header \<Rightarrow> (string \<times> pyval) list option \<Rightarrow> pyval option \<Rightarrow> request" where
  "player_request method command hdr query body =
     \<lparr>meth = method, url = BASE_URL @ PLAYER_PATH @ ''/'' @ command,
      headers = hdr, params = query, json_payload = body\<rparr>"

function submit_command ::
  "env \<Rightarrow> string \<Rightarrow> string \<Rightarrow> (string \<times> pyval) list option \<Rightarrow> pyval option \<Rightarrow> bool
     \<Rightarrow> spotify \<Rightarrow> (bool \<times> pyval) result" where
  "submit_command e method command additional_query_params additional_body_params has_retried s =
     (if method \<notin> set METHODS then
        (Inr (False, PStr (''Unknown command type \"'' @ method @ ''\"'')), s)
      else
        (case get_user_api_headers e s of
           (Inl err, s1) \<Rightarrow> (Inl err, s1)
         | (Inr hdr, s1) \<Rightarrow>
             (let (r, s2) = http e (player_request method command hdr
                                      additional_query_params additional_body_params) s1 in
              if status_code r = 401 \<and> \<not> has_retried then
                submit_command e method command additional_query_params additional_body_params True s2
              else if status_code r = 204 then (Inr (ok r, PStr ''Success''), s2)
              else (case r_json r of
                      Inl err \<Rightarrow> (Inl err, s2)
                    | Inr j \<Rightarrow> (Inr (ok r, j), s2)))))"
  by pat_completeness auto
termination
  by (relation "measure (\<lambda>(e, m, c, q, b, has_retried, s). if has_retried then 0 else 1)") auto

declare submit_command.simps [simp del]

definition get_cmd ::
  "env \<Rightarrow> string \<Rightarrow> (string \<times> pyval) list option \<Rightarrow> pyval option \<Rightarrow> spotify \<Rightarrow> (bool \<times> pyval) result" where
  "get_cmd e command query_params data_params s =
     submit_command e ''get'' command query_params data_params False s"

definition post_cmd ::
  "env \<Rightarrow> string \<Rightarrow> (string \<times> pyval) list option \<Rightarrow> pyval option \<Rightarrow> spotify \<Rightarrow> (bool \<times> pyval) result" where
  "post_cmd e command query_params data_params s =
     submit_command e ''post'' command query_params data_params False s"

definition put_cmd ::
  "env \<Rightarrow> string \<Rightarrow> (string \<times> pyval) list option \<Rightarrow> pyval option \<Rightarrow> spotify \<Rightarrow> (bool \<times> pyval) result" where
  "put_cmd e command query_params data_params s =
     submit_command e ''put'' command query_params data_params False s"

section \<open>Volume (spotifyclient/client.py)\<close>

text \<open>The loop of \<open>get_current_volume\<close> over the devices.\<close>

fun find_volume :: "pyval list \<Rightarrow> string \<Rightarrow> error + pyval" where
  "find_volume [] device_id = Inr PNone"
| "find_volume (device # devices) device_id =
     (case subscript device (PStr ''id'') of
        Inl err \<Rightarrow> Inl err
      | Inr i \<Rightarrow>
          if i = PStr device_id then subscript device (PStr ''volume_percent'')
          else find_volume devices device_id)"

definition get_current_volume :: "env \<Rightarrow> string \<Rightarrow> spotify \<Rightarrow> pyval result" where
  "get_current_volume e device_id s =
     (case get_cmd e ''devices'' None None s of
        (Inl err, s1) \<Rightarrow> (Inl err, s1)
      | (Inr (result, devices_data), s1) \<Rightarrow>
          if \<not> result then (Inr PNone, s1)
          else
            (case subscript devices_data (PStr ''devices'') of
               Inl err \<Rightarrow> (Inl err, s1)
             | Inr devices \<Rightarrow>
                 (case py_iter devices of
                    Inl err \<Rightarrow> (Inl err, s1)
                  | Inr ds \<Rightarrow> (find_volume ds device_id, s1))))"

definition set_device_volume :: "env \<Rightarrow> int \<Rightarrow> spotify \<Rightarrow> (bool \<times> pyval) result" where
  "set_device_volume e volume s =
     put_cmd e ''volume'' (Some [(''volume_percent'', PInt volume)]) None s"

definition change_volume :: "env \<Rightarrow> string \<Rightarrow> int \<Rightarrow> spotify \<Rightarrow> (bool \<times> pyval) result" where
  "change_volume e device_id change s =
     (case get_current_volume e device_id s of
        (Inl err, s1) \<Rightarrow> (Inl err, s1)
      | (Inr current_volume, s1) \<Rightarrow>
          if current_volume = PNone then
            (Inr (False, PStr ''Failed to change volume: Error getting current volume''), s1)
          else
            (case py_num current_volume of
               Inl err \<Rightarrow> (Inl err, s1)
             | Inr v \<Rightarrow> set_device_volume e (min (max (v + change) 0) 100) s1))"

definition increase_volume :: "env \<Rightarrow> string \<Rightarrow> spotify \<Rightarrow> (bool \<times> pyval) result" where
  "increase_volume e device_id s = change_volume e device_id 10 s"

definition decrease_volume :: "env \<Rightarrow> string \<Rightarrow> spotify \<Rightarrow> (bool \<times> pyval) result" where
  "decrease_volume e device_id s = change_volume e device_id (- 10) s"

section \<open>The older client (client.py): no token cache\<close>

definition get_access_token_legacy ::
  "env \<Rightarrow> (string \<times> pyval) list \<Rightarrow> spotify \<Rightarrow> pyval result" where
  "get_access_token_legacy e auth_params s =
     (let (r, s1) = http e (auth_request s auth_params) s in
      if 200 \<le> status_code r \<and> status_code r < 400 then
        (case r_json r of
           Inl err \<Rightarrow> (Inl err, s1)
         | Inr response_auth \<Rightarrow>
             (case py_contains ''access_token'' response_auth of
                Inl err \<Rightarrow> (Inl err, s1)
              | Inr False \<Rightarrow> (Inr PNone, s1)
              | Inr True \<Rightarrow>
                  (case subscript response_auth (PStr ''access_token'') of
                     Inl err \<Rightarrow> (Inl err, s1)
                   | Inr tok \<Rightarrow> (Inr tok, s1))))
      else (Inr PNone, s1))"

definition get_user_access_token_legacy :: "env \<Rightarrow> spotify \<Rightarrow> pyval result" where
  "get_user_access_token_legacy e s =
     (case get_user_auth_params s of
        Inl err \<Rightarrow> (Inl err, s)
      | Inr auth_params \<Rightarrow> get_access_token_legacy e auth_params s)"

definition get_user_api_headers_legacy :: "env \<Rightarrow> spotify \<Rightarrow> auth_header result" where
  "get_user_api_headers_legacy e s =
     (case get_user_access_token_legacy e s of
        (Inl err, s1) \<Rightarrow> (Inl err, s1)
      | (Inr tok, s1) \<Rightarrow> (Inr (Bearer tok), s1))"

function submit_command_legacy ::
  "env \<Rightarrow> string \<Rightarrow> string \<Rightarrow> (string \<times> pyval) list option \<Rightarrow> pyval option \<Rightarrow> bool
     \<Rightarrow> spotify \<Rightarrow> (bool \<times> pyval) result" where
  "submit_command_legacy e method command additional_query_params additional_body_params has_retried s =
     (if method \<notin> set METHODS then
        (Inr (False, PStr (''Unknown command type \"'' @ method @ ''\"'')), s)
      else
        (case get_user_api_headers_legacy e s of
           (Inl err, s1) \<Rightarrow> (Inl err, s1)
         | (Inr hdr, s1) \<Rightarrow>
             (let (r, s2) = http e (player_request method command hdr
                                      additional_query_params additional_body_params) s1 in
              if status_code r = 401 \<and> \<not> has_retried then
                submit_command_legacy e method command additional_query_params
                  additional_body_params True s2
              else
                (let response_message =
                       ''Method: '' @ method @ '' | Command: '' @ command @ '' | Code: ''
                         @ str_int (status_code r);
                     response_message =
                       (if text_body r \<noteq> [] then response_message @ '' | Message: '' @ text_body r
                        else response_message)
                 in (Inr (status_code r = 204, PStr response_message), s2)))))"
  by pat_completeness auto
termination
  by (relation "measure (\<lambda>(e, m, c, q, b, has_retried, s). if has_retried then 0 else 1)") auto

declare submit_command_legacy.simps [simp del]

definition get_generic_access_token_legacy :: "env \<Rightarrow> spotify \<Rightarrow> pyval result" where
  "get_generic_access_token_legacy e s = get_access_token_legacy e get_generic_auth_params s"

definition get_api_headers_legacy :: "env \<Rightarrow> spotify \<Rightarrow> auth_header result" where
  "get_api_headers_legacy e s =
     (case get_generic_access_token_legacy e s of
        (Inl err, s1) \<Rightarrow> (Inl err, s1)
      | (Inr tok, s1) \<Rightarrow> (Inr (Bearer tok), s1))"

text \<open>
  The volume functions of the older client. Its \<open>get_current_volume\<close> reads the
  attribute \<open>success\<close> of what \<open>_get\<close> returns, which is a pair: a tuple has no
  such attribute.
\<close>

definition get_cmd_legacy ::
  "env \<Rightarrow> string \<Rightarrow> (string \<times> pyval) list option \<Rightarrow> pyval option \<Rightarrow> spotify \<Rightarrow> (bool \<times> pyval) result" where
  "get_cmd_legacy e command query_params data_params s =
     submit_command_legacy e ''get'' command query_params data_params False s"

definition put_cmd_legacy ::
  "env \<Rightarrow> string \<Rightarrow> (string \<times> pyval) list option \<Rightarrow> pyval option \<Rightarrow> spotify \<Rightarrow> (bool \<times> pyval) result" where
  "put_cmd_legacy e command query_params data_params s =
     submit_command_legacy e ''put'' command query_params data_params False s"

definition get_current_volume_legacy :: "env \<Rightarrow> string \<Rightarrow> spotify \<Rightarrow> pyval result" where
  "get_current_volume_legacy e device_id s =
     (case get_cmd_legacy e ''devices'' None None s of
        (Inl err, s1) \<Rightarrow> (Inl err, s1)
      | (Inr response, s1) \<Rightarrow> (Inl AttributeError, s1))"

definition set_device_volume_legacy :: "env \<Rightarrow> int \<Rightarrow> spotify \<Rightarrow> (bool \<times> pyval) result" where
  "set_device_volume_legacy e volume s =
     put_cmd_legacy e ''volume'' (Some [(''volume_percent'', PInt volume)]) None s"

definition change_volume_legacy :: "env \<Rightarrow> string \<Rightarrow> int \<Rightarrow> spotify \<Rightarrow> (bool \<times> pyval) result" where
  "change_volume_legacy e device_id change s =
     (case get_current_volume_legacy e device_id s of
        (Inl err, s1) \<Rightarrow> (Inl err, s1)
      | (Inr current_volume, s1) \<Rightarrow>
          if current_volume = PNone then
            (Inr (False, PStr ''Failed to change volume: Error getting current volume''), s1)
          else
            (case py_num current_volume of
               Inl err \<Rightarrow> (Inl err, s1)
             | Inr v \<Rightarrow> set_device_volume_legacy e (min (max (v + change) 0) 100) s1))"

section \<open>Devices and history (both clients)\<close>

text \<open>The loop of \<open>get_available_devices\<close>; \<open>index\<close> is the counter of \<open>enumerate\<close>.\<close>

fun returned_devices :: "nat \<Rightarrow> pyval list \<Rightarrow> (pyval \<times> pyval) list \<Rightarrow> error + (pyval \<times> pyval) list" where
  "returned_devices index [] acc = Inr acc"
| "returned_devices index (device # devices) acc =
     (case subscript device (PStr ''name'') of
        Inl err \<Rightarrow> Inl err
      | Inr name \<Rightarrow>
          (case subscript device (PStr ''id'') of
             Inl err \<Rightarrow> Inl err
           | Inr i \<Rightarrow>
               returned_devices (Suc index) devices
                 (dict_set acc (PInt (int index + 1))
                    (PDict [(PStr ''name'', name), (PStr ''id'', i)]))))"

text \<open>
  \<open>get_available_devices\<close> and \<open>get_recently_played\<close> read the same in both
  clients; \<open>user_headers\<close> is the client's \<open>get_user_api_headers\<close>.
\<close>

function get_available_devices_of ::
  "(env \<Rightarrow> spotify \<Rightarrow> auth_header result) \<Rightarrow> env \<Rightarrow> bool \<Rightarrow> spotify
     \<Rightarrow> (pyval \<times> pyval) result" where
  "get_available_devices_of user_headers e has_retried s =
     (case user_headers e s of
        (Inl err, s1) \<Rightarrow> (Inl err, s1)
      | (Inr hdr, s1) \<Rightarrow>
          (let (r, s2) = http e (player_request ''get'' ''devices'' hdr None None) s1 in
           if status_code r = 401 then
             (if \<not> has_retried then get_available_devices_of user_headers e True s2
              else (Inr (PStr (''Failed to refresh access: Type: \"get\" | Command: \"devices\" | Code: ''
                                @ str_int (status_code r) @ '' | Text: '' @ text_body r), PNone), s2))
           else
             (case r_json r of
                Inl err \<Rightarrow> (Inl err, s2)
              | Inr j \<Rightarrow>
                  (case subscript j (PStr ''devices'') of
                     Inl err \<Rightarrow> (Inl err, s2)
                   | Inr devices \<Rightarrow>
                       (case py_iter devices of
                          Inl err \<Rightarrow> (Inl err, s2)
                        | Inr ds \<Rightarrow>
                            (case returned_devices 0 ds [] of
                               Inl err \<Rightarrow> (Inl err, s2)
                             | Inr m \<Rightarrow> (Inr (PNone, PDict m), s2)))))))"
  by pat_completeness auto
termination
  by (relation "measure (\<lambda>(h, e, has_retried, s). if has_retried then 0 else 1)") auto

declare get_available_devices_of.simps [simp del]

definition get_available_devices :: "env \<Rightarrow> bool \<Rightarrow> spotify \<Rightarrow> (pyval \<times> pyval) result" where
  "get_available_devices = get_available_devices_of get_user_api_headers"

definition get_available_devices_legacy ::
  "env \<Rightarrow> bool \<Rightarrow> spotify \<Rightarrow> (pyval \<times> pyval) result" where
  "get_available_devices_legacy = get_available_devices_of get_user_api_headers_legacy"

text \<open>\<open>datetime.strptime(v, fmt)\<close> on a value.\<close>

definition parse_played_at :: "env \<Rightarrow> pyval \<Rightarrow> error + int" where
  "parse_played_at e v =
     (case py_str v of
        Inl err \<Rightarrow> Inl err
      | Inr cs \<Rightarrow> (case strptime e cs of None \<Rightarrow> Inl ValueError | Some t \<Rightarrow> Inr t))"

text \<open>The body of the \<open>all_data\<close> loop: two entries are stored into the item.\<close>

definition annotate_item :: "env \<Rightarrow> pyval \<Rightarrow> error + pyval" where
  "annotate_item e recent_item =
     (case subscript recent_item (PStr ''played_at'') of
        Inl err \<Rightarrow> Inl err
      | Inr played_at \<Rightarrow>
          (case parse_played_at e played_at of
             Inl err \<Rightarrow> Inl err
           | Inr t \<Rightarrow>
               (case store_subscript recent_item (PStr ''played_at_datetime'') (PDatetime t) of
                  Inl err \<Rightarrow> Inl err
                | Inr item1 \<Rightarrow>
                    store_subscript item1 (PStr ''played_at_friendly'') (PStr (strftime e t)))))"

fun annotate_items :: "env \<Rightarrow> pyval list \<Rightarrow> error + pyval list" where
  "annotate_items e [] = Inr []"
| "annotate_items e (x # xs) =
     (case annotate_item e x of
        Inl err \<Rightarrow> Inl err
      | Inr x' \<Rightarrow> (case annotate_items e xs of Inl err \<Rightarrow> Inl err | Inr xs' \<Rightarrow> Inr (x' # xs')))"

text \<open>A chain of subscripts \<open>v[k1][k2]...\<close>.\<close>

fun path :: "pyval \<Rightarrow> pyval list \<Rightarrow> error + pyval" where
  "path v [] = Inr v"
| "path v (k # ks) = (case subscript v k of Inl err \<Rightarrow> Inl err | Inr w \<Rightarrow> path w ks)"

text \<open>The body of the second loop of \<open>get_recently_played\<close>.\<close>

definition recent_entry :: "env \<Rightarrow> bool \<Rightarrow> pyval \<Rightarrow> error + pyval" where
  "recent_entry e as_json recent_item =
     (case path recent_item [PStr ''track'', PStr ''artists'', PInt 0, PStr ''name''] of
        Inl err \<Rightarrow> Inl err
      | Inr artist_name \<Rightarrow>
     (case path recent_item [PStr ''track'', PStr ''name''] of
        Inl err \<Rightarrow> Inl err
      | Inr track_name \<Rightarrow>
     (case path recent_item [PStr ''track'', PStr ''album'', PStr ''name''] of
        Inl err \<Rightarrow> Inl err
      | Inr album_name \<Rightarrow>
     (case path recent_item [PStr ''track'', PStr ''preview_url''] of
        Inl err \<Rightarrow> Inl err
      | Inr preview_url \<Rightarrow>
     (case subscript recent_item (PStr ''played_at'') of
        Inl err \<Rightarrow> Inl err
      | Inr played_at \<Rightarrow>
     (case parse_played_at e played_at of
        Inl err \<Rightarrow> Inl err
      | Inr t \<Rightarrow>
     (let played_at_friendly = PStr (strftime e t) in
      case path recent_item [PStr ''track'', PStr ''album'', PStr ''images'', PInt 0, PStr ''url''] of
        Inl err \<Rightarrow> Inl err
      | Inr album_image_url \<Rightarrow>
          if as_json then
            Inr (PDict [(PStr ''artist_name'', artist_name), (PStr ''track_name'', track_name),
                        (PStr ''album_name'', album_name),
                        (PStr ''played_at_friendly'', played_at_friendly),
                        (PStr ''preview_url'', preview_url),
                        (PStr ''album_image_url'', album_image_url)])
          else
            Inr (PTuple [artist_name, track_name, album_name, played_at_friendly,
                         preview_url, album_image_url]))))))))"

fun recent_entries :: "env \<Rightarrow> bool \<Rightarrow> pyval list \<Rightarrow> error + pyval list" where
  "recent_entries e as_json [] = Inr []"
| "recent_entries e as_json (x # xs) =
     (case recent_entry e as_json x of
        Inl err \<Rightarrow> Inl err
      | Inr x' \<Rightarrow>
          (case recent_entries e as_json xs of Inl err \<Rightarrow> Inl err | Inr xs' \<Rightarrow> Inr (x' # xs')))"

definition get_recently_played_of ::
  "(env \<Rightarrow> spotify \<Rightarrow> auth_header result) \<Rightarrow> env \<Rightarrow> bool \<Rightarrow> bool \<Rightarrow> spotify
     \<Rightarrow> (pyval \<times> pyval) result" where
  "get_recently_played_of user_headers e as_json all_data s =
     (case user_headers e s of
        (Inl err, s1) \<Rightarrow> (Inl err, s1)
      | (Inr hdr, s1) \<Rightarrow>
          (let (r, s2) = http e (player_request ''get'' ''recently-played'' hdr None None) s1;
               has_retried = False in
           if status_code r = 401 then
             (if \<not> has_retried then get_available_devices_of user_headers e True s2
              else (Inr (PStr (''Unauthorised | Code: '' @ str_int (status_code r)), PNone), s2))
           else
             (case r_json r of
                Inl err \<Rightarrow> (Inl err, s2)
              | Inr recent_data \<Rightarrow>
                  (case subscript recent_data (PStr ''items'') of
                     Inl err \<Rightarrow> (Inl err, s2)
                   | Inr items \<Rightarrow>
                       (case py_iter items of
                          Inl err \<Rightarrow> (Inl err, s2)
                        | Inr xs \<Rightarrow>
                            if all_data then
                              (case annotate_items e xs of
                                 Inl err \<Rightarrow> (Inl err, s2)
                               | Inr xs' \<Rightarrow>
                                   (Inr (PNone, (case items of PList _ \<Rightarrow> PList xs' | _ \<Rightarrow> items)), s2))
                            else
                              (case recent_entries e as_json xs of
                                 Inl err \<Rightarrow> (Inl err, s2)
                               | Inr recent_items \<Rightarrow> (Inr (PNone, PList recent_items), s2)))))))"

definition get_recently_played :: "env \<Rightarrow> bool \<Rightarrow> bool \<Rightarrow> spotify \<Rightarrow> (pyval \<times> pyval) result" where
  "get_recently_played = get_recently_played_of get_user_api_headers"

text \<open>The older client has no \<open>all_data\<close> argument and always builds the entries.\<close>

definition get_recently_played_legacy :: "env \<Rightarrow> bool \<Rightarrow> spotify \<Rightarrow> (pyval \<times> pyval) result" where
  "get_recently_played_legacy e as_json s =
     get_recently_played_of get_user_api_headers_legacy e as_json False s"

section \<open>Search and paginated extraction (both clients)\<close>

text \<open>
  The result dict of an extraction: integer keys in insertion order, each entry a dict
  from field names to values.
\<close>

type_synonym results = "(int \<times> (string \<times> pyval) list) list"

fun join :: "string \<Rightarrow> string list \<Rightarrow> string" where
  "join sep [] = []"
| "join sep [x] = x"
| "join sep (x # y # ys) = x @ sep @ join sep (y # ys)"

text \<open>The loop \<open>for artist in artists: artist_names.append(artist['name'])\<close>.\<close>

fun artist_names :: "pyval list \<Rightarrow> error + pyval list" where
  "artist_names [] = Inr []"
| "artist_names (artist # artists) =
     (case subscript artist (PStr ''name'') of
        Inl err \<Rightarrow> Inl err
      | Inr n \<Rightarrow> (case artist_names artists of Inl err \<Rightarrow> Inl err | Inr ns \<Rightarrow> Inr (n # ns)))"

text \<open>The operands of \<open>', '.join(...)\<close> must all be strings.\<close>

fun py_strs :: "pyval list \<Rightarrow> error + string list" where
  "py_strs [] = Inr []"
| "py_strs (v # vs) =
     (case py_str v of
        Inl err \<Rightarrow> Inl err
      | Inr x \<Rightarrow> (case py_strs vs of Inl err \<Rightarrow> Inl err | Inr xs \<Rightarrow> Inr (x # xs)))"

definition extract_artist :: "pyval \<Rightarrow> results \<Rightarrow> error + results" where
  "extract_artist artist results =
     (let index = int (length results) in
      case subscript artist (PStr ''name'') of
        Inl err \<Rightarrow> Inl err
      | Inr name \<Rightarrow>
          (case subscript artist (PStr ''uri'') of
             Inl err \<Rightarrow> Inl err
           | Inr uri \<Rightarrow> Inr (dict_set results index [(''name'', name), (''uri'', uri)])))"

definition extract_album :: "pyval \<Rightarrow> results \<Rightarrow> error + results" where
  "extract_album album results =
     (let index = int (length results) in
      case subscript album (PStr ''name'') of
        Inl err \<Rightarrow> Inl err
      | Inr name \<Rightarrow>
      (case subscript album (PStr ''uri'') of
        Inl err \<Rightarrow> Inl err
      | Inr uri \<Rightarrow>
      (case subscript album (PStr ''artists'') of
        Inl err \<Rightarrow> Inl err
      | Inr artists \<Rightarrow>
      (case py_iter artists of
        Inl err \<Rightarrow> Inl err
      | Inr as \<Rightarrow>
      (case artist_names as of
        Inl err \<Rightarrow> Inl err
      | Inr names \<Rightarrow>
      (case py_str name of
        Inl err \<Rightarrow> Inl err
      | Inr n \<Rightarrow>
      (case py_strs names of
        Inl err \<Rightarrow> Inl err
      | Inr ns \<Rightarrow>
          Inr (dict_set results index
                 [(''display_name'', PStr (n @ ''('' @ join '', '' ns @ '')'')),
                  (''name'', name), (''uri'', uri)]))))))))"

definition extract_track :: "pyval \<Rightarrow> results \<Rightarrow> error + results" where
  "extract_track track results =
     (let index = int (length results) in
      case subscript track (PStr ''name'') of
        Inl err \<Rightarrow> Inl err
      | Inr name \<Rightarrow>
      (case subscript track (PStr ''uri'') of
        Inl err \<Rightarrow> Inl err
      | Inr uri \<Rightarrow>
      (case subscript track (PStr ''artists'') of
        Inl err \<Rightarrow> Inl err
      | Inr artists \<Rightarrow>
      (case py_iter artists of
        Inl err \<Rightarrow> Inl err
      | Inr as \<Rightarrow>
      (case artist_names as of
        Inl err \<Rightarrow> Inl err
      | Inr names \<Rightarrow>
      (case subscript track (PStr ''album'') of
        Inl err \<Rightarrow> Inl err
      | Inr album \<Rightarrow>
      (case subscript album (PStr ''name'') of
        Inl err \<Rightarrow> Inl err
      | Inr album_name \<Rightarrow>
      (case py_str name of
        Inl err \<Rightarrow> Inl err
      | Inr n \<Rightarrow>
      (case py_str album_name of
        Inl err \<Rightarrow> Inl err
      | Inr an \<Rightarrow>
      (case py_strs names of
        Inl err \<Rightarrow> Inl err
      | Inr ns \<Rightarrow>
          Inr (dict_set results index
                 [(''display_name'', PStr (n @ '' ('' @ an @ '' by '' @ join '', '' ns @ '')'')),
                  (''name'', name), (''uri'', uri)])))))))))))"

text \<open>The loop \<open>for item in data['items']: extract_method(item, results)\<close>.\<close>

fun extract_items ::
  "(pyval \<Rightarrow> results \<Rightarrow> error + results) \<Rightarrow> pyval list \<Rightarrow> results \<Rightarrow> error + results" where
  "extract_items extract_method [] results = Inr results"
| "extract_items extract_method (item # items) results =
     (case extract_method item results of
        Inl err \<Rightarrow> Inl err
      | Inr results' \<Rightarrow> extract_items extract_method items results')"

definition extract_page ::
  "(pyval \<Rightarrow> results \<Rightarrow> error + results) \<Rightarrow> pyval \<Rightarrow> results \<Rightarrow> error + results" where
  "extract_page extract_method data results =
     (case subscript data (PStr ''items'') of
        Inl err \<Rightarrow> Inl err
      | Inr items \<Rightarrow>
          (case py_iter items of
             Inl err \<Rightarrow> Inl err
           | Inr xs \<Rightarrow> extract_items extract_method xs results))"

text \<open>
  The branch taken on a status other than 200, in \<open>search_tracks\<close> and in the loop of
  \<open>extract_data\<close>: the message of the body is printed.
\<close>

definition report_error :: "response \<Rightarrow> spotify \<Rightarrow> unit result" where
  "report_error r s =
     (case r_json r of
        Inl err \<Rightarrow> (Inl err, s)
      | Inr j \<Rightarrow>
          (case subscript j (PStr ''error'') of
             Inl err \<Rightarrow> (Inl err, s)
           | Inr error \<Rightarrow>
               (case subscript error (PStr ''message'') of
                  Inl err \<Rightarrow> (Inl err, s)
                | Inr m \<Rightarrow>
                    (case py_str m of
                       Inl err \<Rightarrow> (Inl err, s)
                     | Inr msg \<Rightarrow> (Inr (), print (''Error getting results: '' @ msg) s)))))"

definition page_request :: "string \<Rightarrow> auth_header \<Rightarrow> request" where
  "page_request u hdr = \<lparr>meth = ''get'', url = u, headers = hdr, params = None, json_payload = None\<rparr>"

text \<open>
  The \<open>while\<close> loop of \<open>extract_data\<close>. The loop runs as long as the remote side
  hands out cursors, so it is given fuel: one unit per evaluation of the loop condition,
  and \<open>None\<close> when the fuel runs out. \<open>api_headers\<close> is the client's
  \<open>_get_api_headers\<close>; the two clients differ in nothing else here. A cursor that is
  not a string is refused by the \<open>requests\<close> library.
\<close>

fun follow_next ::
  "(env \<Rightarrow> spotify \<Rightarrow> auth_header result) \<Rightarrow> nat \<Rightarrow> env \<Rightarrow> string
     \<Rightarrow> (pyval \<Rightarrow> results \<Rightarrow> error + results) \<Rightarrow> pyval \<Rightarrow> results \<Rightarrow> spotify
     \<Rightarrow> results result option" where
  "follow_next api_headers 0 e field extract_method next_items results s = None"
| "follow_next api_headers (Suc fuel) e field extract_method next_items results s =
     (if \<not> truthy next_items then Some (Inr results, s)
      else
        (case py_len next_items of
           Inl err \<Rightarrow> Some (Inl err, s)
         | Inr n \<Rightarrow>
             if \<not> n > 0 then Some (Inr results, s)
             else
               (case api_headers e s of
                  (Inl err, s1) \<Rightarrow> Some (Inl err, s1)
                | (Inr hdr, s1) \<Rightarrow>
                    (case next_items of
                       PStr u \<Rightarrow>
                         (let (r, s2) = http e (page_request u hdr) s1 in
                          if status_code r \<noteq> 200 then
                            (case report_error r s2 of
                               (Inl err, s3) \<Rightarrow> Some (Inl err, s3)
                             | (Inr _, s3) \<Rightarrow> Some (Inr results, s3))
                          else
                            (case r_json r of
                               Inl err \<Rightarrow> Some (Inl err, s2)
                             | Inr j \<Rightarrow>
                                 (case subscript j (PStr field) of
                                    Inl err \<Rightarrow> Some (Inl err, s2)
                                  | Inr data \<Rightarrow>
                                      (case extract_page extract_method data results of
                                         Inl err \<Rightarrow> Some (Inl err, s2)
                                       | Inr results' \<Rightarrow>
                                           (case subscript data (PStr ''next'') of
                                              Inl err \<Rightarrow> Some (Inl err, s2)
                                            | Inr next_items' \<Rightarrow>
                                                follow_next api_headers fuel e field extract_method
                                                  next_items' results' s2)))))
                     | _ \<Rightarrow> Some (Inl RequestException, s1)))))"

definition extract_data_of ::
  "(env \<Rightarrow> spotify \<Rightarrow> auth_header result) \<Rightarrow> nat \<Rightarrow> env \<Rightarrow> string \<Rightarrow> pyval \<Rightarrow> bool
     \<Rightarrow> (pyval \<Rightarrow> results \<Rightarrow> error + results) \<Rightarrow> spotify \<Rightarrow> results result option" where
  "extract_data_of api_headers fuel e field data all_pages extract_method s =
     (case extract_page extract_method data [] of
        Inl err \<Rightarrow> Some (Inl err, s)
      | Inr results \<Rightarrow>
          (case subscript data (PStr ''next'') of
             Inl err \<Rightarrow> Some (Inl err, s)
           | Inr next_items \<Rightarrow>
               if all_pages then
                 follow_next api_headers fuel e field extract_method next_items results s
               else Some (Inr results, s)))"

definition extract_data ::
  "nat \<Rightarrow> env \<Rightarrow> string \<Rightarrow> pyval \<Rightarrow> bool
     \<Rightarrow> (pyval \<Rightarrow> results \<Rightarrow> error + results) \<Rightarrow> spotify \<Rightarrow> results result option" where
  "extract_data = extract_data_of get_api_headers"

definition extract_data_legacy ::
  "nat \<Rightarrow> env \<Rightarrow> string \<Rightarrow> pyval \<Rightarrow> bool
     \<Rightarrow> (pyval \<Rightarrow> results \<Rightarrow> error + results) \<Rightarrow> spotify \<Rightarrow> results result option" where
  "extract_data_legacy = extract_data_of get_api_headers_legacy"

text \<open>The \<open>types\<close> argument of a search: a string (iterated by character) or a list of strings.\<close>

datatype types_arg = TypesStr string | TypesList "string list"

fun types_iter :: "types_arg \<Rightarrow> string list" where
  "types_iter (TypesStr cs) = map (\<lambda>c. [c]) cs"
| "types_iter (TypesList ts) = ts"

fun types_value :: "types_arg \<Rightarrow> pyval" where
  "types_value (TypesStr cs) = PStr cs"
| "types_value (TypesList ts) = PList (map PStr ts)"

record search_results =
  artists :: results
  albums :: results
  tracks :: results

text \<open>\<open>d.get(k, [])\<close>: only a dict has the method.\<close>

fun py_get :: "pyval \<Rightarrow> string \<Rightarrow> error + pyval" where
  "py_get (PDict kvs) k = (case map_of kvs (PStr k) of None \<Rightarrow> Inr (PList []) | Some v \<Rightarrow> Inr v)"
| "py_get _ k = Inl AttributeError"

definition search_request :: "string \<Rightarrow> types_arg \<Rightarrow> int \<Rightarrow> auth_header \<Rightarrow> request" where
  "search_request q types limit hdr =
     \<lparr>meth = ''get'', url = BASE_URL @ ''/search'', headers = hdr,
      params = Some [(''q'', PStr q), (''type'', types_value types), (''limit'', PInt limit)],
      json_payload = None\<rparr>"

text \<open>One category of a search response: extracted when the value is truthy.\<close>

definition extract_category ::
  "(env \<Rightarrow> spotify \<Rightarrow> auth_header result) \<Rightarrow> nat \<Rightarrow> env \<Rightarrow> string \<Rightarrow> pyval \<Rightarrow> bool
     \<Rightarrow> (pyval \<Rightarrow> results \<Rightarrow> error + results) \<Rightarrow> spotify \<Rightarrow> results result option" where
  "extract_category api_headers fuel e field data all_pages extract_method s =
     (if truthy data then extract_data_of api_headers fuel e field data all_pages extract_method s
      else Some (Inr [], s))"

text \<open>
  \<open>search_tracks\<close> from the request on; \<open>q\<close> is the query string, which the two
  clients build differently.
\<close>

definition run_search ::
  "(env \<Rightarrow> spotify \<Rightarrow> auth_header result) \<Rightarrow> nat \<Rightarrow> env \<Rightarrow> string \<Rightarrow> types_arg \<Rightarrow> int \<Rightarrow> bool
     \<Rightarrow> spotify \<Rightarrow> search_results option result option" where
  "run_search api_headers fuel e q types limit all_pages s =
     (case api_headers e s of
        (Inl err, s1) \<Rightarrow> Some (Inl err, s1)
      | (Inr hdr, s1) \<Rightarrow>
          (let (r, s2) = http e (search_request q types limit hdr) s1 in
           if status_code r \<noteq> 200 then
             (case report_error r s2 of
                (Inl err, s3) \<Rightarrow> Some (Inl err, s3)
              | (Inr _, s3) \<Rightarrow> Some (Inr None, s3))
           else
             (case r_json r of
                Inl err \<Rightarrow> Some (Inl err, s2)
              | Inr results_data \<Rightarrow>
             (case py_get results_data ''artists'' of
                Inl err \<Rightarrow> Some (Inl err, s2)
              | Inr artists_data \<Rightarrow>
             (case py_get results_data ''albums'' of
                Inl err \<Rightarrow> Some (Inl err, s2)
              | Inr albums_data \<Rightarrow>
             (case py_get results_data ''tracks'' of
                Inl err \<Rightarrow> Some (Inl err, s2)
              | Inr tracks_data \<Rightarrow>
             (case extract_category api_headers fuel e ''artists'' artists_data all_pages
                     extract_artist s2 of
                None \<Rightarrow> None
              | Some (Inl err, s3) \<Rightarrow> Some (Inl err, s3)
              | Some (Inr ar, s3) \<Rightarrow>
             (case extract_category api_headers fuel e ''albums'' albums_data all_pages
                     extract_album s3 of
                None \<Rightarrow> None
              | Some (Inl err, s4) \<Rightarrow> Some (Inl err, s4)
              | Some (Inr al, s4) \<Rightarrow>
             (case extract_category api_headers fuel e ''tracks'' tracks_data all_pages
                     extract_track s4 of
                None \<Rightarrow> None
              | Some (Inl err, s5) \<Rightarrow> Some (Inl err, s5)
              | Some (Inr tr, s5) \<Rightarrow>
                  Some (Inr (Some \<lparr>artists = ar, albums = al, tracks = tr\<rparr>), s5))))))))))"

definition search_tracks ::
  "nat \<Rightarrow> env \<Rightarrow> string \<Rightarrow> types_arg \<Rightarrow> int \<Rightarrow> bool \<Rightarrow> bool
     \<Rightarrow> spotify \<Rightarrow> search_results option result option" where
  "search_tracks fuel e search_term types limit exact_match all_pages s =
     run_search get_api_headers fuel e
       (if exact_match then join '' '' (map (\<lambda>t. t @ '':'' @ search_term) (types_iter types))
        else search_term)
       types limit all_pages s"

definition search_tracks_legacy ::
  "nat \<Rightarrow> env \<Rightarrow> string \<Rightarrow> types_arg \<Rightarrow> int \<Rightarrow> bool \<Rightarrow> bool
     \<Rightarrow> spotify \<Rightarrow> search_results option result option" where
  "search_tracks_legacy fuel e search_term types limit exact_match all_pages s =
     run_search get_api_headers_legacy fuel e
       (if exact_match then ''\"'' @ search_term @ ''\" NOT Karaoke'' else search_term)
       types limit all_pages s"

definition do_search ::
  "nat \<Rightarrow> env \<Rightarrow> string \<Rightarrow> types_arg \<Rightarrow> bool \<Rightarrow> spotify \<Rightarrow> search_results option result option" where
  "do_search fuel e search_term search_type exact_match s =
     search_tracks fuel e search_term search_type 50 exact_match False s"

section \<open>Observations on a run\<close>

text \<open>
  The response to the request sent last, which is the terminal response of a dispatch
  that sent at least one request.
\<close>

definition last_response :: "env \<Rightarrow> spotify \<Rightarrow> response" where
  "last_response e s = respond e (butlast (sent s)) (last (sent s))"

text \<open>The cache check of \<open>_get_access_token\<close> fails: no token, or an expiry that has passed.\<close>

definition cache_stale :: "env \<Rightarrow> spotify \<Rightarrow> bool" where
  "cache_stale e s =
     (access_token s = PNone \<or>
      (case token_expires s of
         None \<Rightarrow> False
       | Some expires \<Rightarrow> expires \<le> utcnow e (clock_reads s)))"

definition is_auth_request :: "request \<Rightarrow> bool" where
  "is_auth_request rq = (meth rq = ''post'' \<and> url rq = ''https://accounts.spotify.com'' @ AUTH_PATH)"

text \<open>The requests that a call added to the trace.\<close>

definition sent_since :: "spotify \<Rightarrow> spotify \<Rightarrow> request list" where
  "sent_since s s' = drop (length (sent s)) (sent s')"

text \<open>A headers function that sends nothing but requests to the token endpoint.\<close>

definition sends_auth_only :: "(env \<Rightarrow> spotify \<Rightarrow> auth_header result) \<Rightarrow> bool" where
  "sends_auth_only h =
     (\<forall>e s. \<exists>xs. sent (snd (h e s)) = sent s @ xs \<and> (\<forall>rq\<in>set xs. is_auth_request rq))"

section \<open>Observations on an extraction\<close>

text \<open>Python's \<open>enumerate\<close> with a start: the elements paired with consecutive integers.\<close>

definition enumerate_from :: "nat \<Rightarrow> 'a list \<Rightarrow> (int \<times> 'a) list" where
  "enumerate_from n xs = zip (map int [n..<n + length xs]) xs"

text \<open>A result dict whose keys are 0, 1, ... in insertion order.\<close>

definition dense :: "results \<Rightarrow> bool" where
  "dense rs = (map fst rs = map int [0..<length rs])"

text \<open>The record that an extractor builds for an item: what it stores into an empty dict.\<close>

definition entry ::
  "(pyval \<Rightarrow> results \<Rightarrow> error + results) \<Rightarrow> pyval \<Rightarrow> error + (string \<times> pyval) list" where
  "entry extract_method item =
     (case extract_method item [] of Inl err \<Rightarrow> Inl err | Inr rs \<Rightarrow> Inr (snd (last rs)))"

fun entries ::
  "(pyval \<Rightarrow> results \<Rightarrow> error + results) \<Rightarrow> pyval list \<Rightarrow> error + (string \<times> pyval) list list" where
  "entries extract_method [] = Inr []"
| "entries extract_method (item # items) =
     (case entry extract_method item of
        Inl err \<Rightarrow> Inl err
      | Inr en \<Rightarrow>
          (case entries extract_method items of
             Inl err \<Rightarrow> Inl err
           | Inr ens \<Rightarrow> Inr (en # ens)))"

text \<open>The message that an error body carries under \<open>error.message\<close>, when it is a string.\<close>

definition error_message :: "response \<Rightarrow> string option" where
  "error_message r =
     (case json_body r of
        None \<Rightarrow> None
      | Some j \<Rightarrow>
          (case path j [PStr ''error'', PStr ''message''] of
             Inr (PStr msg) \<Rightarrow> Some msg
           | _ \<Rightarrow> None))"

text \<open>
  The remote side serves pages: following the cursors from \<open>cur\<close>, each request is
  answered 200 with a page under \<open>field\<close>, the item lists of the pages are
  \<open>pages\<close> in order, and the client is left at the cursor and in the state returned.
\<close>

fun served ::
  "(env \<Rightarrow> spotify \<Rightarrow> auth_header result) \<Rightarrow> env \<Rightarrow> string \<Rightarrow> pyval \<Rightarrow> pyval list list
     \<Rightarrow> spotify \<Rightarrow> (pyval \<times> spotify) option" where
  "served api_headers e field cur [] s = Some (cur, s)"
| "served api_headers e field cur (items # pages) s =
     (case cur of
        PStr u \<Rightarrow>
          if u = [] then None
          else
            (case api_headers e s of
               (Inl err, s1) \<Rightarrow> None
             | (Inr hdr, s1) \<Rightarrow>
                 (let (r, s2) = http e (page_request u hdr) s1 in
                  if status_code r \<noteq> 200 then None
                  else
                    (case json_body r of
                       None \<Rightarrow> None
                     | Some j \<Rightarrow>
                         (case subscript j (PStr field) of
                            Inl err \<Rightarrow> None
                          | Inr data \<Rightarrow>
                              (case subscript data (PStr ''items'') of
                                 Inl err \<Rightarrow> None
                               | Inr its \<Rightarrow>
                                   if py_iter its \<noteq> Inr items then None
                                   else
                                     (case subscript data (PStr ''next'') of
                                        Inl err \<Rightarrow> None
                                      | Inr nxt \<Rightarrow>
                                          served api_headers e field nxt pages s2))))))
      | _ \<Rightarrow> None)"

text \<open>
  An extractor stores, for every item, the record it builds under the key
  \<open>len(results)\<close>, or raises.
\<close>

definition keyed_by_size :: "(pyval \<Rightarrow> results \<Rightarrow> error + results) \<Rightarrow> bool" where
  "keyed_by_size extract_method =
     (\<forall>item rs. extract_method item rs =
        (case entry extract_method item of
           Inl err \<Rightarrow> Inl err
         | Inr en \<Rightarrow> Inr (dict_set rs (int (length rs)) en)))"

section \<open>Stub environments for concrete runs\<close>

text \<open>
  The token endpoint of the stubs answers 200 with a token that names the grant it was
  asked for, valid for an hour; the clock starts at 1000 and advances by one second per
  reading. Every other request is answered by \<open>api\<close>.
\<close>

definition stub_token :: "request \<Rightarrow> response" where
  "stub_token rq =
     \<lparr>status_code = 200,
      json_body = Some (PDict [(PStr ''access_token'',
                                PStr (if params rq = Some get_generic_auth_params then ''APP''
                                      else ''USER'')),
                               (PStr ''expires_in'', PInt 3600)]),
      text_body = []\<rparr>"

definition stub_env :: "(request list \<Rightarrow> request \<Rightarrow> response) \<Rightarrow> env" where
  "stub_env api =
     \<lparr>respond = (\<lambda>log rq. if url rq = ''https://accounts.spotify.com'' @ AUTH_PATH
                           then stub_token rq else api log rq),
      utcnow = (\<lambda>n. 1000 + int n),
      strptime = (\<lambda>cs. None),
      strftime = (\<lambda>t. [])\<rparr>"

text \<open>A remote side that answers every request with the same status and an empty JSON object.\<close>

definition status_only :: "int \<Rightarrow> request list \<Rightarrow> request \<Rightarrow> response" where
  "status_only n log rq = \<lparr>status_code = n, json_body = Some (PDict []), text_body = ''{}''\<rparr>"

text \<open>A remote side that answers every request with status 204 and an empty body.\<close>

definition no_content :: "request list \<Rightarrow> request \<Rightarrow> response" where
  "no_content log rq = \<lparr>status_code = 204, json_body = None, text_body = []\<rparr>"

definition client0 :: spotify where
  "client0 = init ''id'' ''secret'' (Some ''R'')"

text \<open>An environment whose remote side is \<open>api\<close> for every request, the token endpoint included.\<close>

definition plain_env :: "(request list \<Rightarrow> request \<Rightarrow> response) \<Rightarrow> env" where
  "plain_env api =
     \<lparr>respond = api, utcnow = (\<lambda>n. 1000 + int n), strptime = (\<lambda>cs. None), strftime = (\<lambda>t. [])\<rparr>"

definition pause_params :: "(string \<times> pyval) list option" where
  "pause_params = Some [(''device_id'', PStr ''D'')]"

text \<open>
  A remote side for the volume scenario: the device list holds device \<open>D\<close> at volume
  95, and every request that is not a GET is answered 204.
\<close>

definition volume_api :: "request list \<Rightarrow> request \<Rightarrow> response" where
  "volume_api log rq =
     (if meth rq = ''get'' then
        \<lparr>status_code = 200,
         json_body = Some (PDict [(PStr ''devices'',
                                   PList [PDict [(PStr ''id'', PStr ''D''),
                                                 (PStr ''name'', PStr ''Kitchen''),
                                                 (PStr ''volume_percent'', PInt 95)]])]),
         text_body = []\<rparr>
      else no_content log rq)"

text \<open>
  A remote side for the history scenario: the history resource answers 401, every other
  resource answers like \<open>volume_api\<close>.
\<close>

definition history_api :: "request list \<Rightarrow> request \<Rightarrow> response" where
  "history_api log rq =
     (if url rq = BASE_URL @ PLAYER_PATH @ ''/recently-played'' then status_only 401 log rq
      else volume_api log rq)"

section \<open>Stub pages for concrete runs\<close>

definition artist_item :: "string \<Rightarrow> pyval" where
  "artist_item n = PDict [(PStr ''name'', PStr n), (PStr ''uri'', PStr (''uri:'' @ n))]"

definition artist_entry :: "string \<Rightarrow> (string \<times> pyval) list" where
  "artist_entry n = [(''name'', PStr n), (''uri'', PStr (''uri:'' @ n))]"

definition page :: "pyval list \<Rightarrow> pyval \<Rightarrow> pyval" where
  "page items nxt = PDict [(PStr ''items'', PList items), (PStr ''next'', nxt)]"

definition page1 :: pyval where
  "page1 = page [artist_item ''a'', artist_item ''b''] (PStr ''p2'')"

definition json_response :: "int \<Rightarrow> pyval \<Rightarrow> response" where
  "json_response n j = \<lparr>status_code = n, json_body = Some j, text_body = []\<rparr>"

definition error_body :: "int \<Rightarrow> string \<Rightarrow> pyval" where
  "error_body n msg = PDict [(PStr ''error'', PDict [(PStr ''status'', PInt n), (PStr ''message'', PStr msg)])]"

text \<open>Three pages of artists, with 2, 2 and 1 items; the first is \<open>page1\<close>.\<close>

definition paged_api :: "request list \<Rightarrow> request \<Rightarrow> response" where
  "paged_api log rq =
     (if url rq = ''p2'' then
        json_response 200
          (PDict [(PStr ''artists'', page [artist_item ''c'', artist_item ''d''] (PStr ''p3''))])
      else if url rq = ''p3'' then
        json_response 200 (PDict [(PStr ''artists'', page [artist_item ''e''] PNone)])
      else json_response 404 (error_body 404 ''Not found''))"

text \<open>The second page fails with a 500 whose body is an error object of the API.\<close>

definition failing_api :: "request list \<Rightarrow> request \<Rightarrow> response" where
  "failing_api log rq = json_response 500 (error_body 500 ''Server error'')"

text \<open>The second page fails with a 500 whose body is not JSON.\<close>

definition broken_api :: "request list \<Rightarrow> request \<Rightarrow> response" where
  "broken_api log rq =
     \<lparr>status_code = 500, json_body = None, text_body = ''Internal Server Error''\<rparr>"

text \<open>Every search is refused with a 401 and an error object.\<close>

definition unauthorized_api :: "request list \<Rightarrow> request \<Rightarrow> response" where
  "unauthorized_api log rq = json_response 401 (error_body 401 ''The access token expired'')"

text \<open>Every request is answered 200 with a body that is not JSON.\<close>

definition not_json_api :: "request list \<Rightarrow> request \<Rightarrow> response" where
  "not_json_api log rq = \<lparr>status_code = 200, json_body = None, text_body = ''<html></html>''\<rparr>"

text \<open>Every request is answered 200 with the JSON document \<open>null\<close>.\<close>

definition null_api :: "request list \<Rightarrow> request \<Rightarrow> response" where
  "null_api log rq = \<lparr>status_code = 200, json_body = Some PNone, text_body = ''null''\<rparr>"

section \<open>Evaluation of concrete runs\<close>

lemmas run_defs =
  stub_env_def stub_token_def status_only_def no_content_def client0_def init_def
  get_user_api_headers_def get_user_access_token_def get_user_auth_params_def
  get_api_headers_def get_generic_access_token_def get_generic_auth_params_def
  get_access_token_def fetch_access_token_def http_def auth_request_def datetime_utcnow_def
  r_json_def ok_def player_request_def BASE_URL_def AUTH_PATH_def PLAYER_PATH_def METHODS_def
  put_cmd_def get_cmd_def post_cmd_def

section \<open>The token cache\<close>

text \<open>
  C4. A token fetch made while a token is cached and its expiry lies strictly after the
  clock reading of the check returns the cached token and expiry, and sends no request.
\<close>

theorem cached_token_no_network:
  assumes "access_token s \<noteq> PNone" and "token_expires s = Some expires"
    and "utcnow e (clock_reads s) < expires"
  shows "fst (get_access_token e auth_params s) = Inr (access_token s, Some expires)
         \<and> sent (snd (get_access_token e auth_params s)) = sent s"
  using assms by (simp add: get_access_token_def datetime_utcnow_def)

theorem cached_token_no_network_witness:
  "access_token (client0\<lparr>access_token := PStr ''T'', token_expires := Some 2000\<rparr>) \<noteq> PNone
   \<and> token_expires (client0\<lparr>access_token := PStr ''T'', token_expires := Some 2000\<rparr>) = Some 2000
   \<and> utcnow (stub_env no_content)
        (clock_reads (client0\<lparr>access_token := PStr ''T'', token_expires := Some 2000\<rparr>)) < 2000
   \<and> fst (get_access_token (stub_env no_content) get_generic_auth_params
            (client0\<lparr>access_token := PStr ''T'', token_expires := Some 2000\<rparr>))
       = Inr (PStr ''T'', Some 2000)
   \<and> sent (snd (get_access_token (stub_env no_content) get_generic_auth_params
                  (client0\<lparr>access_token := PStr ''T'', token_expires := Some 2000\<rparr>))) = []"
  using cached_token_no_network
          [of "client0\<lparr>access_token := PStr ''T'', token_expires := Some 2000\<rparr>" 2000
              "stub_env no_content" get_generic_auth_params]
  by (simp add: client0_def init_def stub_env_def)

section \<open>Exceptions of the token fetch\<close>

text \<open>
  The exceptions that the model of the token fetch can raise. The model has no
  \<open>OverflowError\<close>: it takes instants and durations as unbounded integers.
\<close>

lemma subscript_errors: "subscript v k = Inl err \<Longrightarrow> err \<in> {KeyError, TypeError, IndexError}"
  by (cases "(v, k)" rule: subscript.cases)
     (auto simp: py_index_def split: option.splits sum.splits if_splits)

lemma py_contains_errors: "py_contains k v = Inl err \<Longrightarrow> err = TypeError"
  by (cases "(k, v)" rule: py_contains.cases) auto

lemma py_num_errors: "py_num v = Inl err \<Longrightarrow> err = TypeError"
  by (cases v rule: py_num.cases) auto

lemma fetch_access_token_errors:
  "fst (fetch_access_token e p s) = Inl err
   \<Longrightarrow> err \<in> {JSONDecodeError, KeyError, TypeError, IndexError}"
  by (auto simp: fetch_access_token_def http_def r_json_def datetime_utcnow_def Let_def
           split: if_splits option.splits sum.splits bool.splits prod.splits
           dest: subscript_errors py_contains_errors py_num_errors)

lemma get_access_token_errors:
  "fst (get_access_token e p s) = Inl err
   \<Longrightarrow> err \<in> {JSONDecodeError, KeyError, TypeError, IndexError}"
  by (auto simp: get_access_token_def datetime_utcnow_def Let_def
           split: if_splits option.splits dest: fetch_access_token_errors)

lemma fetch_access_token_absent:
  assumes "r = respond e (sent s) (auth_request s p)"
    and "\<not> (200 \<le> status_code r \<and> status_code r < 400)
         \<or> (\<exists>j. json_body r = Some j \<and> py_contains ''access_token'' j = Inr False)"
  shows "fst (fetch_access_token e p s) = Inr (PNone, None)"
  using assms by (auto simp: fetch_access_token_def http_def r_json_def)

lemma get_access_token_absent:
  assumes "cache_stale e s" and "r = respond e (sent s) (auth_request s p)"
    and "\<not> (200 \<le> status_code r \<and> status_code r < 400)
         \<or> (\<exists>j. json_body r = Some j \<and> py_contains ''access_token'' j = Inr False)"
  shows "fst (get_access_token e p s) = Inr (PNone, None)"
proof -
  let ?s1 = "s\<lparr>clock_reads := Suc (clock_reads s)\<rparr>"
  have a: "fst (fetch_access_token e p s) = Inr (PNone, None)"
    using assms(2,3) by (rule fetch_access_token_absent)
  have "r = respond e (sent ?s1) (auth_request ?s1 p)"
    using assms(2) by (simp add: auth_request_def)
  then have b: "fst (fetch_access_token e p ?s1) = Inr (PNone, None)"
    using assms(3) by (rule fetch_access_token_absent)
  show ?thesis
    using assms(1) a b
    by (auto simp: get_access_token_def cache_stale_def datetime_utcnow_def split: option.splits)
qed

text \<open>
  C7, as the claim states it, fails: with a refresh token present, a response of the
  token endpoint with status 200 and a body that is not JSON holds no
  \<open>access_token\<close>, and the fetch raises \<open>JSONDecodeError\<close>; with the JSON
  document \<open>null\<close> as body the membership test raises \<open>TypeError\<close>.
\<close>

theorem user_fetch_raises_on_undecodable_body:
  "refresh_token client0 = Some ''R''
   \<and> cache_stale (plain_env not_json_api) client0
   \<and> status_code (respond (plain_env not_json_api) (sent client0)
        (auth_request client0 [(''grant_type'', PStr ''refresh_token''),
                               (''refresh_token'', PStr ''R'')])) = 200
   \<and> json_body (respond (plain_env not_json_api) (sent client0)
        (auth_request client0 [(''grant_type'', PStr ''refresh_token''),
                               (''refresh_token'', PStr ''R'')])) = None
   \<and> fst (get_user_access_token (plain_env not_json_api) client0) = Inl JSONDecodeError
   \<and> cache_stale (plain_env null_api) client0
   \<and> json_body (respond (plain_env null_api) (sent client0)
        (auth_request client0 [(''grant_type'', PStr ''refresh_token''),
                               (''refresh_token'', PStr ''R'')])) = Some PNone
   \<and> fst (get_user_access_token (plain_env null_api) client0) = Inl TypeError"
  by (simp add: plain_env_def not_json_api_def null_api_def client0_def init_def cache_stale_def
        get_user_access_token_def get_user_auth_params_def get_access_token_def
        fetch_access_token_def http_def r_json_def auth_request_def)

text \<open>
  C7, amended. The user-scope token fetch raises \<open>PermissionError\<close> exactly when the
  refresh token is absent. With a refresh token present and the cache empty or expired, a
  response of the token endpoint whose status lies outside 200 to 399, or whose body
  decodes to JSON in which the test \<open>'access_token' in body\<close> is false, makes the
  fetch return \<open>None\<close> without raising.
\<close>

theorem user_token_permission_error:
  "(fst (get_user_access_token e s) = Inl PermissionError \<longleftrightarrow> refresh_token s = None)
   \<and> (\<forall>rt r. refresh_token s = Some rt \<and> cache_stale e s
         \<and> r = respond e (sent s) (auth_request s [(''grant_type'', PStr ''refresh_token''),
                                                     (''refresh_token'', PStr rt)])
         \<and> (\<not> (200 \<le> status_code r \<and> status_code r < 400)
            \<or> (\<exists>j. json_body r = Some j \<and> py_contains ''access_token'' j = Inr False))
       \<longrightarrow> fst (get_user_access_token e s) = Inr PNone)"
proof (intro conjI allI impI)
  show "fst (get_user_access_token e s) = Inl PermissionError \<longleftrightarrow> refresh_token s = None"
  proof (cases "refresh_token s")
    case None
    then show ?thesis by (simp add: get_user_access_token_def get_user_auth_params_def)
  next
    case (Some rt)
    let ?p = "[(''grant_type'', PStr ''refresh_token''), (''refresh_token'', PStr rt)]"
    have "fst (get_access_token e ?p s) \<noteq> Inl PermissionError"
      using get_access_token_errors[of e ?p s PermissionError] by auto
    with Some show ?thesis
      by (auto simp: get_user_access_token_def get_user_auth_params_def
               split: prod.splits sum.splits)
  qed
next
  fix rt r
  assume h: "refresh_token s = Some rt \<and> cache_stale e s
         \<and> r = respond e (sent s) (auth_request s [(''grant_type'', PStr ''refresh_token''),
                                                     (''refresh_token'', PStr rt)])
         \<and> (\<not> (200 \<le> status_code r \<and> status_code r < 400)
            \<or> (\<exists>j. json_body r = Some j \<and> py_contains ''access_token'' j = Inr False))"
  let ?p = "[(''grant_type'', PStr ''refresh_token''), (''refresh_token'', PStr rt)]"
  from h have "fst (get_access_token e ?p s) = Inr (PNone, None)"
    by (intro get_access_token_absent[where r = r]) auto
  with h show "fst (get_user_access_token e s) = Inr PNone"
    by (auto simp: get_user_access_token_def get_user_auth_params_def
             split: prod.splits sum.splits)
qed

theorem user_token_permission_error_witness:
  "refresh_token (init ''id'' ''secret'' None) = None
   \<and> fst (get_user_access_token (plain_env (status_only 503)) (init ''id'' ''secret'' None))
       = Inl PermissionError
   \<and> refresh_token client0 = Some ''R''
   \<and> cache_stale (plain_env (status_only 503)) client0
   \<and> status_code (respond (plain_env (status_only 503)) (sent client0)
        (auth_request client0 [(''grant_type'', PStr ''refresh_token''),
                               (''refresh_token'', PStr ''R'')])) = 503
   \<and> fst (get_user_access_token (plain_env (status_only 503)) client0) = Inr PNone
   \<and> json_body (respond (plain_env (status_only 200)) (sent client0)
        (auth_request client0 [(''grant_type'', PStr ''refresh_token''),
                               (''refresh_token'', PStr ''R'')])) = Some (PDict [])
   \<and> py_contains ''access_token'' (PDict []) = Inr False
   \<and> fst (get_user_access_token (plain_env (status_only 200)) client0) = Inr PNone"
  using user_token_permission_error [of "plain_env (status_only 503)" "init ''id'' ''secret'' None"]
        user_token_permission_error [of "plain_env (status_only 503)" client0]
        user_token_permission_error [of "plain_env (status_only 200)" client0]
  by (simp add: plain_env_def status_only_def client0_def init_def cache_stale_def)

section \<open>Dispatch: the success flag\<close>

lemma http_last_response: "http e rq s = (r, s') \<Longrightarrow> last_response e s' = r"
  by (auto simp: http_def last_response_def)

lemma dispatch_flag_retried:
  assumes "m \<in> set METHODS" "submit_command e m c q b True s = (Inr (okv, p), s')"
  shows "okv = ok (last_response e s')
         \<and> (status_code (last_response e s') = 204 \<longrightarrow> p = PStr ''Success'')"
  using assms
  apply (subst (asm) submit_command.simps)
  apply (auto simp: http_last_response r_json_def
              split: prod.splits sum.splits if_splits option.splits)
  done

lemma dispatch_flag_any:
  assumes "m \<in> set METHODS" "submit_command e m c q b hr s = (Inr (okv, p), s')"
  shows "okv = ok (last_response e s')
         \<and> (status_code (last_response e s') = 204 \<longrightarrow> p = PStr ''Success'')"
proof (cases hr)
  case True
  with assms show ?thesis using dispatch_flag_retried[of m e c q b s okv p s'] by simp
next
  case False
  with assms show ?thesis
    apply (subst (asm) submit_command.simps)
    apply (auto simp: http_last_response r_json_def
                split: prod.splits sum.splits if_splits option.splits
                dest: dispatch_flag_retried[rotated])
    done
qed

lemma dispatch_flag_legacy_retried:
  assumes "m \<in> set METHODS" "submit_command_legacy e m c q b True s = (Inr (okv, p), s')"
  shows "okv = (status_code (last_response e s') = 204)"
  using assms
  apply (subst (asm) submit_command_legacy.simps)
  apply (auto simp: http_last_response Let_def split: prod.splits sum.splits if_splits)
  done

lemma dispatch_flag_legacy_any:
  assumes "m \<in> set METHODS" "submit_command_legacy e m c q b hr s = (Inr (okv, p), s')"
  shows "okv = (status_code (last_response e s') = 204)"
proof (cases hr)
  case True
  with assms show ?thesis
    using dispatch_flag_legacy_retried[of m e c q b s okv p s'] by simp
next
  case False
  with assms show ?thesis
    apply (subst (asm) submit_command_legacy.simps)
    apply (auto simp: http_last_response Let_def split: prod.splits sum.splits if_splits
                dest: dispatch_flag_legacy_retried[rotated])
    done
qed

text \<open>
  C1, as the claim states it, fails on the newer client: a terminal 200 gives
  \<open>ok = True\<close>.
\<close>

theorem dispatch_ok_on_200:
  "fst (submit_command (stub_env (status_only 200)) ''get'' ''devices'' None None False client0)
     = Inr (True, PDict [])
   \<and> status_code (last_response (stub_env (status_only 200))
        (snd (submit_command (stub_env (status_only 200)) ''get'' ''devices'' None None False
                client0))) = 200"
  by (simp add: run_defs last_response_def submit_command.simps)

text \<open>
  C1, amended. For a method among get, post and put, a dispatch that returns a pair
  returns, in the newer client (spotifyclient/client.py), the \<open>ok\<close> flag of the terminal
  response, which is true exactly when its status is not in 400 to 599, and the
  payload \<open>'Success'\<close> on a terminal 204; in the older client (client.py) the first
  component is true exactly when the terminal status is 204.
\<close>

theorem submit_command_ok:
  assumes "method \<in> set METHODS"
  shows "(submit_command e method command q b has_retried s = (Inr (okv, p), s')
          \<longrightarrow> okv = (\<not> (400 \<le> status_code (last_response e s')
                           \<and> status_code (last_response e s') < 600))
              \<and> (status_code (last_response e s') = 204 \<longrightarrow> p = PStr ''Success''))
       \<and> (submit_command_legacy e method command q b has_retried s = (Inr (okv', p'), s'')
          \<longrightarrow> okv' = (status_code (last_response e s'') = 204))"
  using dispatch_flag_any[OF assms, of e command q b has_retried s okv p s']
        dispatch_flag_legacy_any[OF assms, of e command q b has_retried s okv' p' s'']
  by (simp add: ok_def)

theorem submit_command_ok_witness:
  "''put'' \<in> set METHODS
   \<and> submit_command (stub_env no_content) ''put'' ''pause'' pause_params None False client0
       = (Inr (True, PStr ''Success''),
          snd (submit_command (stub_env no_content) ''put'' ''pause'' pause_params None False client0))
   \<and> status_code (last_response (stub_env no_content)
        (snd (submit_command (stub_env no_content) ''put'' ''pause'' pause_params None False
                client0))) = 204
   \<and> submit_command_legacy (stub_env no_content) ''put'' ''pause'' pause_params None False client0
       = (Inr (True, PStr ''Method: put | Command: pause | Code: 204''),
          snd (submit_command_legacy (stub_env no_content) ''put'' ''pause'' pause_params
                 None False client0))
   \<and> status_code (last_response (stub_env no_content)
        (snd (submit_command_legacy (stub_env no_content) ''put'' ''pause'' pause_params
                None False client0))) = 204"
  using submit_command_ok [of "''put''" "stub_env no_content" "''pause''" pause_params None False
          client0 True "PStr ''Success''"
          "snd (submit_command (stub_env no_content) ''put'' ''pause'' pause_params None False client0)"
          True "PStr ''Method: put | Command: pause | Code: 204''"
          "snd (submit_command_legacy (stub_env no_content) ''put'' ''pause'' pause_params
                  None False client0)"]
  by (simp add: run_defs last_response_def submit_command.simps submit_command_legacy.simps
        get_user_api_headers_legacy_def get_user_access_token_legacy_def
        get_access_token_legacy_def pause_params_def str_int_def str_nat.simps)

section \<open>The requests a call sends\<close>

lemma fetch_access_token_sent:
  "sent (snd (fetch_access_token e p s)) = sent s @ [auth_request s p]"
  by (auto simp: fetch_access_token_def http_def r_json_def datetime_utcnow_def Let_def
           split: if_splits option.splits sum.splits bool.splits prod.splits)

lemma auth_request_is_auth: "is_auth_request (auth_request s p)"
  by (simp add: is_auth_request_def auth_request_def)

lemma get_access_token_sent:
  "\<exists>xs. sent (snd (get_access_token e p s)) = sent s @ xs \<and> (\<forall>rq\<in>set xs. is_auth_request rq)"
proof -
  let ?s1 = "s\<lparr>clock_reads := Suc (clock_reads s)\<rparr>"
  have "sent (snd (get_access_token e p s)) = sent s
        \<or> sent (snd (get_access_token e p s)) = sent s @ [auth_request s p]
        \<or> sent (snd (get_access_token e p s)) = sent s @ [auth_request ?s1 p]"
    using fetch_access_token_sent[of e p s] fetch_access_token_sent[of e p ?s1]
    by (auto simp: get_access_token_def datetime_utcnow_def split: option.splits)
  then show ?thesis
    using auth_request_is_auth by (metis append_Nil2 empty_iff empty_set set_ConsD)
qed

lemma get_user_api_headers_sent:
  "\<exists>xs. sent (snd (get_user_api_headers e s)) = sent s @ xs \<and> (\<forall>rq\<in>set xs. is_auth_request rq)"
proof (cases "refresh_token s")
  case None
  then show ?thesis
    by (simp add: get_user_api_headers_def get_user_access_token_def get_user_auth_params_def)
next
  case (Some rt)
  let ?p = "[(''grant_type'', PStr ''refresh_token''), (''refresh_token'', PStr rt)]"
  have "sent (snd (get_user_api_headers e s)) = sent (snd (get_access_token e ?p s))"
    using Some
    by (auto simp: get_user_api_headers_def get_user_access_token_def get_user_auth_params_def
             split: prod.splits sum.splits)
  then show ?thesis using get_access_token_sent[of e ?p s] by simp
qed

lemma submit_command_sent_retried:
  "\<exists>xs. sent (snd (submit_command e m c q b True s)) = sent s @ xs
        \<and> (\<forall>rq\<in>set xs. is_auth_request rq \<or> (\<exists>hdr. rq = player_request m c hdr q b))"
proof (cases "m \<in> set METHODS")
  case False
  then show ?thesis by (subst submit_command.simps) simp
next
  case True
  obtain res s1 where h: "get_user_api_headers e s = (res, s1)" by (cases "get_user_api_headers e s")
  obtain xs where xs: "sent s1 = sent s @ xs" "\<forall>rq\<in>set xs. is_auth_request rq"
    using get_user_api_headers_sent[of e s] h by auto
  show ?thesis
  proof (cases res)
    case (Inl err)
    with True h xs show ?thesis by (subst submit_command.simps) auto
  next
    case (Inr hdr)
    have "sent (snd (submit_command e m c q b True s)) = sent s @ (xs @ [player_request m c hdr q b])"
      using True h Inr xs
      by (subst submit_command.simps)
         (auto simp: http_def split: sum.splits)
    moreover have "\<forall>rq\<in>set (xs @ [player_request m c hdr q b]).
                     is_auth_request rq \<or> (\<exists>hdr. rq = player_request m c hdr q b)"
      using xs by auto
    ultimately show ?thesis by blast
  qed
qed

lemma submit_command_sent_first:
  "\<exists>xs. sent (snd (submit_command e m c q b False s)) = sent s @ xs
        \<and> (\<forall>rq\<in>set xs. is_auth_request rq \<or> (\<exists>hdr. rq = player_request m c hdr q b))"
proof (cases "m \<in> set METHODS")
  case False
  then show ?thesis by (subst submit_command.simps) simp
next
  case True
  obtain res s1 where h: "get_user_api_headers e s = (res, s1)"
    by (cases "get_user_api_headers e s")
  obtain xs where xs: "sent s1 = sent s @ xs" "\<forall>rq\<in>set xs. is_auth_request rq"
    using get_user_api_headers_sent[of e s] h by auto
  show ?thesis
  proof (cases res)
    case (Inl err)
    with True h xs show ?thesis by (subst submit_command.simps) auto
  next
    case (Inr hdr)
    let ?rq = "player_request m c hdr q b"
    let ?s2 = "s1\<lparr>sent := sent s1 @ [?rq]\<rparr>"
    obtain ys where ys: "sent (snd (submit_command e m c q b True ?s2)) = sent ?s2 @ ys"
      "\<forall>rq\<in>set ys. is_auth_request rq \<or> (\<exists>hdr. rq = player_request m c hdr q b)"
      using submit_command_sent_retried[of e m c q b ?s2] by auto
    have "sent (snd (submit_command e m c q b False s)) = sent s @ (xs @ [?rq])
          \<or> sent (snd (submit_command e m c q b False s)) = sent s @ (xs @ [?rq] @ ys)"
      using True h Inr xs ys
      by (subst submit_command.simps, subst (2) submit_command.simps)
         (auto simp: http_def split: sum.splits)
    moreover have "\<forall>rq\<in>set (xs @ [?rq]).
                     is_auth_request rq \<or> (\<exists>hdr. rq = player_request m c hdr q b)"
      using xs by auto
    moreover have "\<forall>rq\<in>set (xs @ [?rq] @ ys).
                     is_auth_request rq \<or> (\<exists>hdr. rq = player_request m c hdr q b)"
      using xs ys by auto
    ultimately show ?thesis by blast
  qed
qed

lemma submit_command_sent:
  "\<exists>xs. sent (snd (submit_command e m c q b hr s)) = sent s @ xs
        \<and> (\<forall>rq\<in>set xs. is_auth_request rq \<or> (\<exists>hdr. rq = player_request m c hdr q b))"
  using submit_command_sent_retried[of e m c q b s] submit_command_sent_first[of e m c q b s]
  by (cases hr) simp_all

section \<open>Volume\<close>

lemma submit_command_sends_request:
  assumes "m \<in> set METHODS" and "get_user_api_headers e s = (Inr hdr, s1)"
  shows "\<exists>ys. sent (snd (submit_command e m c q b hr s))
                = sent s1 @ player_request m c hdr q b # ys"
proof -
  let ?rq = "player_request m c hdr q b"
  let ?s2 = "s1\<lparr>sent := sent s1 @ [?rq]\<rparr>"
  obtain ys where ys: "sent (snd (submit_command e m c q b True ?s2)) = sent ?s2 @ ys"
    using submit_command_sent_retried[of e m c q b ?s2] by auto
  have "sent (snd (submit_command e m c q b hr s)) = sent s1 @ ?rq # []
        \<or> sent (snd (submit_command e m c q b hr s)) = sent s1 @ ?rq # ys"
    using assms ys
    by (subst submit_command.simps, subst (2) submit_command.simps)
       (auto simp: http_def split: sum.splits)
  then show ?thesis by blast
qed

lemma submit_command_returns_headers:
  assumes "m \<in> set METHODS" and "fst (submit_command e m c q b hr s) = Inr res"
  shows "\<exists>hdr s1. get_user_api_headers e s = (Inr hdr, s1)"
  using assms
  by (subst (asm) submit_command.simps) (auto split: prod.splits sum.splits)

text \<open>
  C9. When \<open>get_current_volume\<close> reads the volume \<open>v\<close>, \<open>change_volume\<close> is the
  volume command with \<open>v + change\<close> clamped into 0 to 100. Once the headers of that
  command are built, the next request sent is the PUT to the volume resource with the
  clamped value as \<open>volume_percent\<close>; whenever \<open>change_volume\<close> returns, that PUT
  is among the requests it sent; and every PUT request it sends carries the clamped
  value.
\<close>

theorem change_volume_clamped:
  assumes "get_current_volume e device_id s = (Inr (PInt v), s1)"
  shows "change_volume e device_id change s
           = set_device_volume e (min (max (v + change) 0) 100) s1
         \<and> 0 \<le> min (max (v + change) 0) 100 \<and> min (max (v + change) 0) 100 \<le> 100
         \<and> (\<forall>rq \<in> set (sent_since s1 (snd (change_volume e device_id change s))).
               meth rq = ''put'' \<longrightarrow>
               params rq = Some [(''volume_percent'', PInt (min (max (v + change) 0) 100))])
         \<and> (\<forall>hdr s2. get_user_api_headers e s1 = (Inr hdr, s2) \<longrightarrow>
               (\<exists>ys. sent (snd (change_volume e device_id change s))
                       = sent s2
                         @ player_request ''put'' ''volume'' hdr
                             (Some [(''volume_percent'', PInt (min (max (v + change) 0) 100))])
                             None
                         # ys))
         \<and> (\<forall>res. fst (change_volume e device_id change s) = Inr res \<longrightarrow>
               (\<exists>hdr. player_request ''put'' ''volume'' hdr
                        (Some [(''volume_percent'', PInt (min (max (v + change) 0) 100))]) None
                      \<in> set (sent_since s1 (snd (change_volume e device_id change s)))))"
proof -
  let ?c = "min (max (v + change) 0) 100"
  let ?q = "Some [(''volume_percent'', PInt ?c)]"
  let ?put = "submit_command e ''put'' ''volume'' ?q None False s1"
  have put: "''put'' \<in> set METHODS" by (simp add: METHODS_def)
  have eq: "change_volume e device_id change s = set_device_volume e ?c s1"
    using assms by (simp add: change_volume_def)
  have run: "change_volume e device_id change s = ?put"
    using eq by (simp add: set_device_volume_def put_cmd_def)
  obtain xs where xs:
    "sent (snd ?put) = sent s1 @ xs"
    "\<forall>rq\<in>set xs. is_auth_request rq \<or> (\<exists>hdr. rq = player_request ''put'' ''volume'' hdr ?q None)"
    using submit_command_sent[of e "''put''" "''volume''" ?q None False s1] by auto
  have since: "sent_since s1 (snd (change_volume e device_id change s)) = xs"
    using run xs(1) by (simp add: sent_since_def)
  have carried: "\<forall>rq\<in>set xs. meth rq = ''put'' \<longrightarrow> params rq = ?q"
    using xs(2) by (auto simp: is_auth_request_def player_request_def)
  have next_put: "\<exists>ys. sent (snd (change_volume e device_id change s))
                        = sent s2 @ player_request ''put'' ''volume'' hdr ?q None # ys"
    if "get_user_api_headers e s1 = (Inr hdr, s2)" for hdr s2
    unfolding run using put that by (rule submit_command_sends_request)
  have sent_put: "\<exists>hdr. player_request ''put'' ''volume'' hdr ?q None
                        \<in> set (sent_since s1 (snd (change_volume e device_id change s)))"
    if "fst (change_volume e device_id change s) = Inr res" for res
  proof -
    from that have "fst ?put = Inr res" by (simp add: run)
    with put obtain hdr s2 where h: "get_user_api_headers e s1 = (Inr hdr, s2)"
      using submit_command_returns_headers by blast
    obtain zs where zs: "sent s2 = sent s1 @ zs"
      using get_user_api_headers_sent[of e s1] h by auto
    obtain ys where "sent (snd (change_volume e device_id change s))
                       = sent s2 @ player_request ''put'' ''volume'' hdr ?q None # ys"
      using next_put[OF h] by blast
    then have "sent_since s1 (snd (change_volume e device_id change s))
                 = zs @ player_request ''put'' ''volume'' hdr ?q None # ys"
      using zs by (simp add: sent_since_def)
    then show ?thesis by auto
  qed
  show ?thesis
    using eq since carried next_put sent_put by simp
qed

theorem change_volume_clamped_witness:
  "get_current_volume (stub_env volume_api) ''D'' client0
     = (Inr (PInt 95), snd (get_current_volume (stub_env volume_api) ''D'' client0))
   \<and> get_user_api_headers (stub_env volume_api)
        (snd (get_current_volume (stub_env volume_api) ''D'' client0))
       = (Inr (Bearer (PStr ''USER'')),
          snd (get_user_api_headers (stub_env volume_api)
                 (snd (get_current_volume (stub_env volume_api) ''D'' client0))))
   \<and> fst (change_volume (stub_env volume_api) ''D'' 10 client0) = Inr (True, PStr ''Success'')
   \<and> min (max (95 + 10) 0) 100 = (100 :: int)
   \<and> sent_since (snd (get_current_volume (stub_env volume_api) ''D'' client0))
        (snd (change_volume (stub_env volume_api) ''D'' 10 client0))
       = [player_request ''put'' ''volume'' (Bearer (PStr ''USER''))
            (Some [(''volume_percent'', PInt 100)]) None]"
  using change_volume_clamped [of "stub_env volume_api" "''D''" client0 95
          "snd (get_current_volume (stub_env volume_api) ''D'' client0)" 10]
  by (simp add: run_defs volume_api_def submit_command.simps get_current_volume_def
        change_volume_def set_device_volume_def sent_since_def)

section \<open>The shared token cache\<close>

text \<open>
  C2 at a concrete run: a fresh client fetches the app-scope token and then the
  user-scope token. The second fetch returns the token of the client-credentials flow,
  and the only request sent is the one of that flow.
\<close>

theorem user_fetch_returns_app_token:
  "fst (get_generic_access_token (stub_env no_content) client0) = Inr (PStr ''APP'')
   \<and> fst (get_user_access_token (stub_env no_content)
            (snd (get_generic_access_token (stub_env no_content) client0))) = Inr (PStr ''APP'')
   \<and> sent (snd (get_user_access_token (stub_env no_content)
                  (snd (get_generic_access_token (stub_env no_content) client0))))
       = [auth_request client0 get_generic_auth_params]
   \<and> fst (get_user_access_token_legacy (stub_env no_content)
            (snd (get_generic_access_token_legacy (stub_env no_content) client0)))
       = Inr (PStr ''USER'')"
  by (simp add: run_defs get_user_access_token_legacy_def get_generic_access_token_legacy_def
        get_access_token_legacy_def)

text \<open>
  C3 at a concrete run: a fresh client dispatches a command and the remote side
  answers 401 to every player request. Two attempts are made and the failure is
  returned, but the token endpoint is asked once, before the first attempt: the retry
  carries the same cached token. The older client asks the token endpoint before each
  attempt.
\<close>

theorem retry_reuses_cached_token:
  "fst (submit_command (stub_env (status_only 401)) ''put'' ''pause'' pause_params None False
          client0) = Inr (False, PDict [])
   \<and> sent (snd (submit_command (stub_env (status_only 401)) ''put'' ''pause'' pause_params None
                  False client0))
       = [auth_request client0 [(''grant_type'', PStr ''refresh_token''),
                                (''refresh_token'', PStr ''R'')],
          player_request ''put'' ''pause'' (Bearer (PStr ''USER'')) pause_params None,
          player_request ''put'' ''pause'' (Bearer (PStr ''USER'')) pause_params None]
   \<and> map is_auth_request
        (sent (snd (submit_command_legacy (stub_env (status_only 401)) ''put'' ''pause''
                      pause_params None False client0)))
       = [True, False, True, False]"
  by (simp add: run_defs submit_command.simps submit_command_legacy.simps pause_params_def
        get_user_api_headers_legacy_def get_user_access_token_legacy_def
        get_access_token_legacy_def is_auth_request_def)

text \<open>
  In the older client the current volume is never read: \<open>get_current_volume\<close>
  raises on every call, and so does \<open>change_volume\<close>.
\<close>

lemma get_current_volume_legacy_raises:
  "\<exists>err. fst (get_current_volume_legacy e device_id s) = Inl err"
  by (auto simp: get_current_volume_legacy_def split: prod.splits sum.splits)

lemma change_volume_legacy_raises:
  "\<exists>err. fst (change_volume_legacy e device_id change s) = Inl err"
  using get_current_volume_legacy_raises[of e device_id s]
  by (auto simp: change_volume_legacy_def split: prod.splits sum.splits)

section \<open>History\<close>

lemma get_access_token_legacy_sent:
  "sent (snd (get_access_token_legacy e p s)) = sent s @ [auth_request s p]"
  by (auto simp: get_access_token_legacy_def http_def r_json_def
           split: if_splits option.splits sum.splits bool.splits)

lemma get_user_api_headers_legacy_sent:
  "\<exists>xs. sent (snd (get_user_api_headers_legacy e s)) = sent s @ xs
        \<and> (\<forall>rq\<in>set xs. is_auth_request rq)"
proof (cases "refresh_token s")
  case None
  then show ?thesis
    by (simp add: get_user_api_headers_legacy_def get_user_access_token_legacy_def
          get_user_auth_params_def)
next
  case (Some rt)
  let ?p = "[(''grant_type'', PStr ''refresh_token''), (''refresh_token'', PStr rt)]"
  have "sent (snd (get_user_api_headers_legacy e s)) = sent s @ [auth_request s ?p]"
    using Some get_access_token_legacy_sent[of e ?p s]
    by (auto simp: get_user_api_headers_legacy_def get_user_access_token_legacy_def
          get_user_auth_params_def split: prod.splits sum.splits)
  then show ?thesis using auth_request_is_auth by fastforce
qed

lemma user_headers_send_auth_only:
  "sends_auth_only get_user_api_headers" "sends_auth_only get_user_api_headers_legacy"
  using get_user_api_headers_sent get_user_api_headers_legacy_sent
  by (simp_all add: sends_auth_only_def)

lemma get_available_devices_sent_retried:
  assumes "sends_auth_only h"
  shows "\<exists>xs. sent (snd (get_available_devices_of h e True s)) = sent s @ xs
        \<and> (\<forall>rq\<in>set xs. is_auth_request rq
                          \<or> (\<exists>hdr. rq = player_request ''get'' ''devices'' hdr None None))"
proof -
  obtain res s1 where h: "h e s = (res, s1)"
    by (cases "h e s")
  obtain xs where xs: "sent s1 = sent s @ xs" "\<forall>rq\<in>set xs. is_auth_request rq"
    using assms h unfolding sends_auth_only_def by (metis snd_conv)
  show ?thesis
  proof (cases res)
    case (Inl err)
    with h xs show ?thesis by (subst get_available_devices_of.simps) auto
  next
    case (Inr hdr)
    have "sent (snd (get_available_devices_of h e True s))
            = sent s @ (xs @ [player_request ''get'' ''devices'' hdr None None])"
      using h Inr xs
      by (subst get_available_devices_of.simps) (auto simp: http_def split: sum.splits)
    moreover have "\<forall>rq\<in>set (xs @ [player_request ''get'' ''devices'' hdr None None]).
                     is_auth_request rq
                     \<or> (\<exists>hdr. rq = player_request ''get'' ''devices'' hdr None None)"
      using xs by auto
    ultimately show ?thesis by blast
  qed
qed

lemma returned_devices_shape:
  "fst (get_available_devices_of h e True s) = Inr (a, b)
   \<Longrightarrow> (a = PNone \<and> (\<exists>m. b = PDict m)) \<or> ((\<exists>msg. a = PStr msg) \<and> b = PNone)"
  by (subst (asm) get_available_devices_of.simps)
     (auto simp: http_def split: prod.splits sum.splits if_splits)

lemma recently_played_401:
  assumes "sends_auth_only h" and "h e s = (Inr hdr, s1)"
    and "status_code (respond e (sent s1) (player_request ''get'' ''recently-played'' hdr None None))
           = 401"
    and "s2 = s1\<lparr>sent := sent s1 @ [player_request ''get'' ''recently-played'' hdr None None]\<rparr>"
  shows "get_recently_played_of h e as_json all_data s = get_available_devices_of h e True s2
         \<and> (\<forall>rq \<in> set (sent_since s2 (snd (get_recently_played_of h e as_json all_data s))).
               url rq \<noteq> BASE_URL @ PLAYER_PATH @ ''/recently-played'')
         \<and> (\<forall>a b. fst (get_recently_played_of h e as_json all_data s) = Inr (a, b) \<longrightarrow>
               (a = PNone \<and> (\<exists>m. b = PDict m)) \<or> ((\<exists>msg. a = PStr msg) \<and> b = PNone))"
proof -
  have eq: "get_recently_played_of h e as_json all_data s = get_available_devices_of h e True s2"
    using assms(2,3,4) by (simp add: get_recently_played_of_def http_def)
  obtain xs where xs: "sent (snd (get_available_devices_of h e True s2)) = sent s2 @ xs"
    "\<forall>rq\<in>set xs. is_auth_request rq
                  \<or> (\<exists>hdr. rq = player_request ''get'' ''devices'' hdr None None)"
    using get_available_devices_sent_retried[OF assms(1), of e s2] by auto
  have "sent_since s2 (snd (get_recently_played_of h e as_json all_data s)) = xs"
    using eq xs(1) by (simp add: sent_since_def)
  moreover have "\<forall>rq\<in>set xs. url rq \<noteq> BASE_URL @ PLAYER_PATH @ ''/recently-played''"
    using xs(2)
    by (auto simp: is_auth_request_def player_request_def BASE_URL_def PLAYER_PATH_def
          AUTH_PATH_def)
  ultimately show ?thesis
    using eq returned_devices_shape[of h e s2] by auto
qed

text \<open>
  C10. When the first response to \<open>get_recently_played\<close> has status 401, the value
  returned is that of \<open>get_available_devices(True)\<close>, run after the history request:
  a device map or the failure message of the device listing, never a list of history
  items, and no further request goes to the history resource. This holds in both
  clients.
\<close>

theorem recently_played_401_returns_devices:
  "(get_user_api_headers e s = (Inr hdr, s1)
      \<and> status_code (respond e (sent s1)
            (player_request ''get'' ''recently-played'' hdr None None)) = 401
      \<and> s2 = s1\<lparr>sent := sent s1 @ [player_request ''get'' ''recently-played'' hdr None None]\<rparr>
    \<longrightarrow> get_recently_played e as_json all_data s = get_available_devices e True s2
        \<and> (\<forall>rq \<in> set (sent_since s2 (snd (get_recently_played e as_json all_data s))).
              url rq \<noteq> BASE_URL @ PLAYER_PATH @ ''/recently-played'')
        \<and> (\<forall>a b. fst (get_recently_played e as_json all_data s) = Inr (a, b) \<longrightarrow>
              (a = PNone \<and> (\<exists>m. b = PDict m)) \<or> ((\<exists>msg. a = PStr msg) \<and> b = PNone)))
   \<and> (get_user_api_headers_legacy e s = (Inr hdr', s1')
      \<and> status_code (respond e (sent s1')
            (player_request ''get'' ''recently-played'' hdr' None None)) = 401
      \<and> s2' = s1'\<lparr>sent := sent s1' @ [player_request ''get'' ''recently-played'' hdr' None None]\<rparr>
    \<longrightarrow> get_recently_played_legacy e as_json s = get_available_devices_legacy e True s2'
        \<and> (\<forall>rq \<in> set (sent_since s2' (snd (get_recently_played_legacy e as_json s))).
              url rq \<noteq> BASE_URL @ PLAYER_PATH @ ''/recently-played'')
        \<and> (\<forall>a b. fst (get_recently_played_legacy e as_json s) = Inr (a, b) \<longrightarrow>
              (a = PNone \<and> (\<exists>m. b = PDict m)) \<or> ((\<exists>msg. a = PStr msg) \<and> b = PNone)))"
proof (rule conjI; rule impI; elim conjE)
  assume "get_user_api_headers e s = (Inr hdr, s1)"
    and "status_code (respond e (sent s1)
           (player_request ''get'' ''recently-played'' hdr None None)) = 401"
    and "s2 = s1\<lparr>sent := sent s1 @ [player_request ''get'' ''recently-played'' hdr None None]\<rparr>"
  then show "get_recently_played e as_json all_data s = get_available_devices e True s2
        \<and> (\<forall>rq \<in> set (sent_since s2 (snd (get_recently_played e as_json all_data s))).
              url rq \<noteq> BASE_URL @ PLAYER_PATH @ ''/recently-played'')
        \<and> (\<forall>a b. fst (get_recently_played e as_json all_data s) = Inr (a, b) \<longrightarrow>
              (a = PNone \<and> (\<exists>m. b = PDict m)) \<or> ((\<exists>msg. a = PStr msg) \<and> b = PNone))"
    unfolding get_recently_played_def get_available_devices_def
    by (rule recently_played_401[OF user_headers_send_auth_only(1)])
next
  assume "get_user_api_headers_legacy e s = (Inr hdr', s1')"
    and "status_code (respond e (sent s1')
           (player_request ''get'' ''recently-played'' hdr' None None)) = 401"
    and "s2' = s1'\<lparr>sent := sent s1' @ [player_request ''get'' ''recently-played'' hdr' None None]\<rparr>"
  then show "get_recently_played_legacy e as_json s = get_available_devices_legacy e True s2'
        \<and> (\<forall>rq \<in> set (sent_since s2' (snd (get_recently_played_legacy e as_json s))).
              url rq \<noteq> BASE_URL @ PLAYER_PATH @ ''/recently-played'')
        \<and> (\<forall>a b. fst (get_recently_played_legacy e as_json s) = Inr (a, b) \<longrightarrow>
              (a = PNone \<and> (\<exists>m. b = PDict m)) \<or> ((\<exists>msg. a = PStr msg) \<and> b = PNone))"
    unfolding get_recently_played_legacy_def get_available_devices_legacy_def
    by (rule recently_played_401[OF user_headers_send_auth_only(2)])
qed

theorem recently_played_401_returns_devices_witness:
  "get_user_api_headers (stub_env history_api) client0
     = (Inr (Bearer (PStr ''USER'')), snd (get_user_api_headers (stub_env history_api) client0))
   \<and> status_code (respond (stub_env history_api)
        (sent (snd (get_user_api_headers (stub_env history_api) client0)))
        (player_request ''get'' ''recently-played'' (Bearer (PStr ''USER'')) None None)) = 401
   \<and> fst (get_recently_played (stub_env history_api) False False client0)
       = Inr (PNone, PDict [(PInt 1, PDict [(PStr ''name'', PStr ''Kitchen''),
                                            (PStr ''id'', PStr ''D'')])])
   \<and> map url (sent (snd (get_recently_played (stub_env history_api) False False client0)))
       = [''https://accounts.spotify.com/api/token'',
          ''https://api.spotify.com/v1/me/player/recently-played'',
          ''https://api.spotify.com/v1/me/player/devices'']
   \<and> get_user_api_headers_legacy (stub_env history_api) client0
     = (Inr (Bearer (PStr ''USER'')),
        snd (get_user_api_headers_legacy (stub_env history_api) client0))
   \<and> fst (get_recently_played_legacy (stub_env history_api) False client0)
       = Inr (PNone, PDict [(PInt 1, PDict [(PStr ''name'', PStr ''Kitchen''),
                                            (PStr ''id'', PStr ''D'')])])
   \<and> map url (sent (snd (get_recently_played_legacy (stub_env history_api) False client0)))
       = [''https://accounts.spotify.com/api/token'',
          ''https://api.spotify.com/v1/me/player/recently-played'',
          ''https://accounts.spotify.com/api/token'',
          ''https://api.spotify.com/v1/me/player/devices'']"
  using recently_played_401_returns_devices [of "stub_env history_api" client0
          "Bearer (PStr ''USER'')" "snd (get_user_api_headers (stub_env history_api) client0)"
          "(snd (get_user_api_headers (stub_env history_api) client0))
             \<lparr>sent := sent (snd (get_user_api_headers (stub_env history_api) client0))
                      @ [player_request ''get'' ''recently-played'' (Bearer (PStr ''USER'')) None None]\<rparr>"
          False False
          "Bearer (PStr ''USER'')"
          "snd (get_user_api_headers_legacy (stub_env history_api) client0)"
          "(snd (get_user_api_headers_legacy (stub_env history_api) client0))
             \<lparr>sent := sent (snd (get_user_api_headers_legacy (stub_env history_api) client0))
                      @ [player_request ''get'' ''recently-played'' (Bearer (PStr ''USER'')) None None]\<rparr>"]
  by (simp add: run_defs history_api_def volume_api_def get_available_devices_of.simps
        get_recently_played_def get_recently_played_of_def get_available_devices_def
        get_recently_played_legacy_def get_available_devices_legacy_def
        get_user_api_headers_legacy_def get_user_access_token_legacy_def
        get_access_token_legacy_def)

section \<open>Search failures\<close>

lemma report_error_message:
  "error_message r = Some msg
   \<Longrightarrow> report_error r s = (Inr (), print (''Error getting results: '' @ msg) s)"
  by (auto simp: error_message_def report_error_def r_json_def
           split: option.splits sum.splits pyval.splits)

lemma run_search_failure:
  assumes "api_headers e s = (Inr hdr, s1)"
    and "status_code (respond e (sent s1) (search_request q types limit hdr)) \<noteq> 200"
    and "error_message (respond e (sent s1) (search_request q types limit hdr)) = Some msg"
  shows "run_search api_headers fuel e q types limit all_pages s
           = Some (Inr None,
                   print (''Error getting results: '' @ msg)
                     (s1\<lparr>sent := sent s1 @ [search_request q types limit hdr]\<rparr>))"
  using assms by (simp add: run_search_def http_def report_error_message)

text \<open>
  C8, as the claim states it, fails: when the response to the search request has status
  500 and a body that is not JSON, reading the error message raises and nothing is
  returned.
\<close>

theorem search_raises_on_undecodable_error:
  "status_code (respond (stub_env broken_api)
      (sent (snd (get_api_headers (stub_env broken_api) client0)))
      (search_request ''abba'' (TypesList [''artist'']) 50 (Bearer (PStr ''APP'')))) = 500
   \<and> map_option fst
        (search_tracks 0 (stub_env broken_api) ''abba'' (TypesList [''artist'']) 50 False False
           client0)
       = Some (Inl JSONDecodeError)"
  by (simp add: run_defs broken_api_def search_tracks_def run_search_def search_request_def
        report_error_def)

text \<open>
  C8, amended. When the response to the search request has a status other than 200 and
  its body carries an error message, \<open>search_tracks\<close> prints that message and
  returns \<open>None\<close>; the search request is the only request sent after the headers
  were built, whatever the status, 401 included. This holds in both clients.
\<close>

theorem search_failure_reported:
  "(get_api_headers e s = (Inr hdr, s1)
      \<and> rq = search_request
               (if exact_match
                then join '' '' (map (\<lambda>t. t @ '':'' @ search_term) (types_iter types))
                else search_term) types limit hdr
      \<and> status_code (respond e (sent s1) rq) \<noteq> 200
      \<and> error_message (respond e (sent s1) rq) = Some msg
    \<longrightarrow> search_tracks fuel e search_term types limit exact_match all_pages s
          = Some (Inr None,
                  print (''Error getting results: '' @ msg) (s1\<lparr>sent := sent s1 @ [rq]\<rparr>)))
   \<and> (get_api_headers_legacy e s = (Inr hdr', s1')
      \<and> rq' = search_request
                (if exact_match then ''\"'' @ search_term @ ''\" NOT Karaoke'' else search_term)
                types limit hdr'
      \<and> status_code (respond e (sent s1') rq') \<noteq> 200
      \<and> error_message (respond e (sent s1') rq') = Some msg'
    \<longrightarrow> search_tracks_legacy fuel e search_term types limit exact_match all_pages s
          = Some (Inr None,
                  print (''Error getting results: '' @ msg') (s1'\<lparr>sent := sent s1' @ [rq']\<rparr>)))"
proof (intro conjI impI; elim conjE)
  assume h: "get_api_headers e s = (Inr hdr, s1)"
    and rq: "rq = search_request
               (if exact_match
                then join '' '' (map (\<lambda>t. t @ '':'' @ search_term) (types_iter types))
                else search_term) types limit hdr"
    and st: "status_code (respond e (sent s1) rq) \<noteq> 200"
    and msg: "error_message (respond e (sent s1) rq) = Some msg"
  show "search_tracks fuel e search_term types limit exact_match all_pages s
          = Some (Inr None,
                  print (''Error getting results: '' @ msg) (s1\<lparr>sent := sent s1 @ [rq]\<rparr>))"
    unfolding search_tracks_def rq
    using h st[unfolded rq] msg[unfolded rq] by (rule run_search_failure)
next
  assume h: "get_api_headers_legacy e s = (Inr hdr', s1')"
    and rq: "rq' = search_request
                (if exact_match then ''\"'' @ search_term @ ''\" NOT Karaoke'' else search_term)
                types limit hdr'"
    and st: "status_code (respond e (sent s1') rq') \<noteq> 200"
    and msg: "error_message (respond e (sent s1') rq') = Some msg'"
  show "search_tracks_legacy fuel e search_term types limit exact_match all_pages s
          = Some (Inr None,
                  print (''Error getting results: '' @ msg') (s1'\<lparr>sent := sent s1' @ [rq']\<rparr>))"
    unfolding search_tracks_legacy_def rq
    using h st[unfolded rq] msg[unfolded rq] by (rule run_search_failure)
qed

theorem search_failure_reported_witness:
  "get_api_headers (stub_env unauthorized_api) client0
     = (Inr (Bearer (PStr ''APP'')), snd (get_api_headers (stub_env unauthorized_api) client0))
   \<and> status_code (respond (stub_env unauthorized_api)
        (sent (snd (get_api_headers (stub_env unauthorized_api) client0)))
        (search_request ''abba'' (TypesList [''artist'']) 50 (Bearer (PStr ''APP'')))) = 401
   \<and> error_message (respond (stub_env unauthorized_api)
        (sent (snd (get_api_headers (stub_env unauthorized_api) client0)))
        (search_request ''abba'' (TypesList [''artist'']) 50 (Bearer (PStr ''APP''))))
       = Some ''The access token expired''
   \<and> search_tracks 0 (stub_env unauthorized_api) ''abba'' (TypesList [''artist'']) 50 False True
        client0
       = Some (Inr None,
               print ''Error getting results: The access token expired''
                 ((snd (get_api_headers (stub_env unauthorized_api) client0))
                    \<lparr>sent := [auth_request client0 get_generic_auth_params,
                              search_request ''abba'' (TypesList [''artist'']) 50
                                (Bearer (PStr ''APP''))]\<rparr>))
   \<and> get_api_headers_legacy (stub_env unauthorized_api) client0
     = (Inr (Bearer (PStr ''APP'')),
        snd (get_api_headers_legacy (stub_env unauthorized_api) client0))
   \<and> search_tracks_legacy 0 (stub_env unauthorized_api) ''abba'' (TypesList [''artist'']) 50
        False True client0
       = Some (Inr None,
               print ''Error getting results: The access token expired''
                 ((snd (get_api_headers_legacy (stub_env unauthorized_api) client0))
                    \<lparr>sent := [auth_request client0 get_generic_auth_params,
                              search_request ''abba'' (TypesList [''artist'']) 50
                                (Bearer (PStr ''APP''))]\<rparr>))"
  using search_failure_reported [of "stub_env unauthorized_api" client0 "Bearer (PStr ''APP'')"
          "snd (get_api_headers (stub_env unauthorized_api) client0)"
          "search_request ''abba'' (TypesList [''artist'']) 50 (Bearer (PStr ''APP''))"
          False "''abba''" "TypesList [''artist'']" 50 "''The access token expired''" 0 True
          "Bearer (PStr ''APP'')"
          "snd (get_api_headers_legacy (stub_env unauthorized_api) client0)"
          "search_request ''abba'' (TypesList [''artist'']) 50 (Bearer (PStr ''APP''))"
          "''The access token expired''"]
  by (simp add: run_defs unauthorized_api_def json_response_def error_body_def error_message_def
        search_request_def get_api_headers_legacy_def get_generic_access_token_legacy_def
        get_access_token_legacy_def)

section \<open>Extraction: keys and order\<close>

lemma enumerate_from_Nil [simp]: "enumerate_from n [] = []"
  by (simp add: enumerate_from_def)

lemma enumerate_from_Cons:
  "enumerate_from n (x # xs) = (int n, x) # enumerate_from (Suc n) xs"
proof -
  have "[n..<n + length (x # xs)] = n # [Suc n..<Suc n + length xs]"
    by (subst upt_rec) simp
  then show ?thesis by (simp add: enumerate_from_def)
qed

lemma enumerate_from_append:
  "enumerate_from n (xs @ ys) = enumerate_from n xs @ enumerate_from (n + length xs) ys"
  by (induction xs arbitrary: n) (simp_all add: enumerate_from_Cons)

lemma length_enumerate_from [simp]: "length (enumerate_from n xs) = length xs"
  by (simp add: enumerate_from_def)

lemma map_fst_enumerate_from: "map fst (enumerate_from n xs) = map int [n..<n + length xs]"
  by (simp add: enumerate_from_def)

lemma map_snd_enumerate_from: "map snd (enumerate_from n xs) = xs"
  by (simp add: enumerate_from_def)

lemma dense_Nil [simp]: "dense []"
  by (simp add: dense_def)

lemma dense_enumerate:
  assumes "dense rs"
  shows "dense (rs @ enumerate_from (length rs) ens)"
proof -
  have "[0..<length rs + length ens] = [0..<length rs] @ [length rs..<length rs + length ens]"
    by (metis le_add1 upt_add_eq_append zero_le)
  then show ?thesis
    using assms by (simp add: dense_def map_fst_enumerate_from)
qed

lemma dict_set_fresh: "k \<notin> fst ` set rs \<Longrightarrow> dict_set rs k v = rs @ [(k, v)]"
  by (induction rs) auto

lemma dense_fresh:
  assumes "dense rs"
  shows "int (length rs) \<notin> fst ` set rs"
proof -
  have "fst ` set rs = set (map fst rs)" by simp
  also have "\<dots> = int ` {0..<length rs}" using assms by (simp add: dense_def)
  finally show ?thesis by auto
qed

lemma dict_set_dense:
  "dense rs \<Longrightarrow> dict_set rs (int (length rs)) en = rs @ enumerate_from (length rs) [en]"
  by (simp add: dict_set_fresh dense_fresh enumerate_from_Cons)

lemma extract_artist_keyed: "keyed_by_size extract_artist"
  by (auto simp: keyed_by_size_def entry_def extract_artist_def split: sum.splits)

lemma extract_album_keyed: "keyed_by_size extract_album"
  by (auto simp: keyed_by_size_def entry_def extract_album_def split: sum.splits)

lemma extract_track_keyed: "keyed_by_size extract_track"
  by (auto simp: keyed_by_size_def entry_def extract_track_def split: sum.splits)

lemma source_extractors_keyed:
  "extract_method \<in> {extract_artist, extract_album, extract_track} \<Longrightarrow> keyed_by_size extract_method"
  using extract_artist_keyed extract_album_keyed extract_track_keyed by auto

lemma keyed_step:
  assumes "keyed_by_size ext" and "dense rs"
  shows "ext item rs =
           (case entry ext item of
              Inl err \<Rightarrow> Inl err
            | Inr en \<Rightarrow> Inr (rs @ enumerate_from (length rs) [en]))"
proof -
  have "ext item rs =
          (case entry ext item of
             Inl err \<Rightarrow> Inl err
           | Inr en \<Rightarrow> Inr (dict_set rs (int (length rs)) en))"
    using assms(1) unfolding keyed_by_size_def by blast
  then show ?thesis using assms(2) by (simp add: dict_set_dense split: sum.splits)
qed

lemma extract_items_entries:
  assumes "keyed_by_size ext" and "dense rs" and "entries ext items = Inr ens"
  shows "extract_items ext items rs = Inr (rs @ enumerate_from (length rs) ens)"
  using assms(2,3)
proof (induction items arbitrary: rs ens)
  case Nil
  then show ?case by simp
next
  case (Cons item items)
  from Cons.prems(2) obtain en ens' where
    en: "entry ext item = Inr en" and ens': "entries ext items = Inr ens'" and e: "ens = en # ens'"
    by (auto split: sum.splits)
  let ?rs = "rs @ enumerate_from (length rs) [en]"
  have step: "ext item rs = Inr ?rs"
    using keyed_step[OF assms(1) Cons.prems(1), of item] en by simp
  have d: "dense ?rs" using Cons.prems(1) by (rule dense_enumerate)
  have "extract_items ext items ?rs = Inr (?rs @ enumerate_from (length ?rs) ens')"
    using Cons.IH[OF d ens'] .
  then show ?case
    using step e by (simp add: enumerate_from_Cons)
qed

lemma extract_items_dense:
  assumes "keyed_by_size ext" and "dense rs" and "extract_items ext items rs = Inr rs'"
  shows "dense rs'"
  using assms(2,3)
proof (induction items arbitrary: rs)
  case Nil
  then show ?case by simp
next
  case (Cons item items)
  from Cons.prems(2) obtain rs1 where
    a: "ext item rs = Inr rs1" and b: "extract_items ext items rs1 = Inr rs'"
    by (auto split: sum.splits)
  from a obtain en where "rs1 = rs @ enumerate_from (length rs) [en]"
    using keyed_step[OF assms(1) Cons.prems(1), of item] by (auto split: sum.splits)
  then have "dense rs1" using Cons.prems(1) dense_enumerate by blast
  then show ?case using Cons.IH b by blast
qed

lemma entries_append:
  "entries ext (xs @ ys) = Inr ens
   \<Longrightarrow> \<exists>a b. entries ext xs = Inr a \<and> entries ext ys = Inr b \<and> ens = a @ b"
  by (induction xs arbitrary: ens) (auto split: sum.splits)

lemma extract_page_entries:
  assumes "keyed_by_size ext" and "dense rs"
    and "subscript data (PStr ''items'') = Inr its" and "py_iter its = Inr items"
    and "entries ext items = Inr ens"
  shows "extract_page ext data rs = Inr (rs @ enumerate_from (length rs) ens)"
  using assms by (simp add: extract_page_def extract_items_entries)

lemma extract_page_dense:
  assumes "keyed_by_size ext" and "dense rs" and "extract_page ext data rs = Inr rs'"
  shows "dense rs'"
  using assms extract_items_dense
  by (auto simp: extract_page_def split: sum.splits)

section \<open>Extraction: following the cursors\<close>

lemma served_Cons:
  assumes "served h e field cur (items # pages) s = Some res"
  shows "\<exists>u hdr s1 j data its nxt.
           cur = PStr u \<and> u \<noteq> [] \<and> h e s = (Inr hdr, s1)
           \<and> status_code (respond e (sent s1) (page_request u hdr)) = 200
           \<and> json_body (respond e (sent s1) (page_request u hdr)) = Some j
           \<and> subscript j (PStr field) = Inr data
           \<and> subscript data (PStr ''items'') = Inr its \<and> py_iter its = Inr items
           \<and> subscript data (PStr ''next'') = Inr nxt
           \<and> served h e field nxt pages (s1\<lparr>sent := sent s1 @ [page_request u hdr]\<rparr>) = Some res"
  using assms
  by (auto simp: http_def
           split: pyval.splits if_splits prod.splits sum.splits option.splits)

lemma follow_next_page:
  assumes "u \<noteq> []" and "h e s = (Inr hdr, s1)"
    and "status_code (respond e (sent s1) (page_request u hdr)) = 200"
    and "json_body (respond e (sent s1) (page_request u hdr)) = Some j"
    and "subscript j (PStr field) = Inr data"
    and "extract_page ext data rs = Inr rs1"
    and "subscript data (PStr ''next'') = Inr nxt"
  shows "follow_next h (Suc k) e field ext (PStr u) rs s
           = follow_next h k e field ext nxt rs1 (s1\<lparr>sent := sent s1 @ [page_request u hdr]\<rparr>)"
  using assms by (simp add: http_def r_json_def)

lemma follow_next_served:
  assumes "keyed_by_size ext"
  shows "served h e field cur pages s = Some (cur', s') \<Longrightarrow> dense rs
         \<Longrightarrow> entries ext (concat pages) = Inr ens
         \<Longrightarrow> follow_next h (length pages + k) e field ext cur rs s
             = follow_next h k e field ext cur' (rs @ enumerate_from (length rs) ens) s'"
proof (induction pages arbitrary: cur rs s ens)
  case Nil
  then show ?case by simp
next
  case (Cons items pages)
  from served_Cons[OF Cons.prems(1)] obtain u hdr s1 j data its nxt where
    cur: "cur = PStr u" and u: "u \<noteq> []" and hd: "h e s = (Inr hdr, s1)"
    and st: "status_code (respond e (sent s1) (page_request u hdr)) = 200"
    and js: "json_body (respond e (sent s1) (page_request u hdr)) = Some j"
    and fd: "subscript j (PStr field) = Inr data"
    and its: "subscript data (PStr ''items'') = Inr its" and it: "py_iter its = Inr items"
    and nx: "subscript data (PStr ''next'') = Inr nxt"
    and rest: "served h e field nxt pages (s1\<lparr>sent := sent s1 @ [page_request u hdr]\<rparr>)
                 = Some (cur', s')"
    by blast
  from Cons.prems(3) obtain a b where
    a: "entries ext items = Inr a" and b: "entries ext (concat pages) = Inr b" and ab: "ens = a @ b"
    using entries_append[of ext items "concat pages" ens] by auto
  let ?rs1 = "rs @ enumerate_from (length rs) a"
  have page: "extract_page ext data rs = Inr ?rs1"
    using assms Cons.prems(2) its it a by (rule extract_page_entries)
  have d1: "dense ?rs1" using Cons.prems(2) by (rule dense_enumerate)
  have "follow_next h (length (items # pages) + k) e field ext cur rs s
          = follow_next h (length pages + k) e field ext nxt ?rs1
              (s1\<lparr>sent := sent s1 @ [page_request u hdr]\<rparr>)"
    using follow_next_page[of u h e s hdr s1 j field data ext rs ?rs1 nxt "length pages + k"]
      u hd st js fd page nx cur
    by simp
  also have "\<dots> = follow_next h k e field ext cur'
                     (?rs1 @ enumerate_from (length ?rs1) b) s'"
    using Cons.IH[OF rest d1 b] .
  finally show ?case by (simp add: ab enumerate_from_append)
qed

lemma follow_next_stops:
  assumes "u \<noteq> []" and "h e s = (Inr hdr, s1)"
    and "status_code (respond e (sent s1) (page_request u hdr)) \<noteq> 200"
    and "error_message (respond e (sent s1) (page_request u hdr)) = Some msg"
  shows "follow_next h (Suc k) e field ext (PStr u) rs s
           = Some (Inr rs, print (''Error getting results: '' @ msg)
                             (s1\<lparr>sent := sent s1 @ [page_request u hdr]\<rparr>))"
  using assms by (simp add: http_def report_error_message)

lemma follow_next_dense:
  assumes "keyed_by_size ext"
  shows "dense rs \<Longrightarrow> follow_next h fuel e field ext cur rs s = Some (Inr rs', s')
         \<Longrightarrow> dense rs'"
proof (induction fuel arbitrary: cur rs s)
  case 0
  then show ?case by simp
next
  case (Suc fuel)
  show ?case
  proof (cases "\<exists>data nxt s2 rs1. extract_page ext data rs = Inr rs1
                  \<and> follow_next h fuel e field ext nxt rs1 s2 = Some (Inr rs', s')")
    case True
    then obtain data nxt s2 rs1 where
      p: "extract_page ext data rs = Inr rs1"
      and f: "follow_next h fuel e field ext nxt rs1 s2 = Some (Inr rs', s')"
      by blast
    have "dense rs1" using assms Suc.prems(1) p by (rule extract_page_dense)
    then show ?thesis using Suc.IH f by blast
  next
    case False
    with Suc.prems(2) have "rs' = rs"
      by (auto simp: Let_def split: if_splits sum.splits prod.splits pyval.splits)
    then show ?thesis using Suc.prems(1) by simp
  qed
qed

lemma extract_data_of_dense:
  assumes "keyed_by_size ext"
    and "extract_data_of h fuel e field data all_pages ext s = Some (Inr rs, s')"
  shows "dense rs"
proof -
  from assms(2) obtain rs0 nxt where
    p: "extract_page ext data [] = Inr rs0"
    and r: "(all_pages \<and> follow_next h fuel e field ext nxt rs0 s = Some (Inr rs, s'))
            \<or> (\<not> all_pages \<and> rs = rs0)"
    by (auto simp: extract_data_of_def split: sum.splits if_splits)
  have d: "dense rs0" using assms(1) dense_Nil p by (rule extract_page_dense)
  from r show ?thesis using d follow_next_dense[OF assms(1) d] by blast
qed

text \<open>
  C5. For the three extractors of the source and a first page \<open>data\<close>:
  with \<open>all_pages\<close> false the result holds the records of the items of the first
  page, keyed 0, 1, ... in their order, and no request is sent, whatever the cursor
  of the page is; with \<open>all_pages\<close> true, when the remote side serves \<open>pages\<close>
  along the cursors and ends with an absent or empty cursor, the result holds the
  records of all items of all pages, keyed 0, 1, ... in the order met (enough fuel
  gives the result); and every result that \<open>extract_data\<close> returns has the keys
  0, 1, ... in insertion order. \<open>api_headers\<close> is \<open>_get_api_headers\<close> of either
  client.
\<close>

theorem extract_data_pages:
  assumes "extract_method \<in> {extract_artist, extract_album, extract_track}"
    and "subscript data (PStr ''items'') = Inr its" and "py_iter its = Inr items"
    and "subscript data (PStr ''next'') = Inr cur"
  shows "(entries extract_method items = Inr ens0
          \<longrightarrow> extract_data_of api_headers fuel e field data False extract_method s
                = Some (Inr (enumerate_from 0 ens0), s))
       \<and> (entries extract_method (items @ concat pages) = Inr ens
            \<and> served api_headers e field cur pages s = Some (cur', s')
            \<and> \<not> truthy cur' \<and> length pages < fuel
          \<longrightarrow> extract_data_of api_headers fuel e field data True extract_method s
                = Some (Inr (enumerate_from 0 ens), s'))
       \<and> (\<forall>all_pages rs s''.
             extract_data_of api_headers fuel e field data all_pages extract_method s
               = Some (Inr rs, s'')
             \<longrightarrow> map fst rs = map int [0..<length rs])"
proof -
  have keyed: "keyed_by_size extract_method"
    using assms(1) by (rule source_extractors_keyed)
  have first: "extract_data_of api_headers fuel e field data False extract_method s
                 = Some (Inr (enumerate_from 0 ens0), s)"
    if "entries extract_method items = Inr ens0"
  proof -
    have "extract_page extract_method data [] = Inr (enumerate_from 0 ens0)"
      using extract_page_entries[OF keyed dense_Nil assms(2,3) that] by simp
    then show ?thesis
      using assms(4) by (simp add: extract_data_of_def)
  qed
  have all: "extract_data_of api_headers fuel e field data True extract_method s
                    = Some (Inr (enumerate_from 0 ens), s')"
    if en: "entries extract_method (items @ concat pages) = Inr ens"
      and sv: "served api_headers e field cur pages s = Some (cur', s')"
      and fin: "\<not> truthy cur'" and fuel: "length pages < fuel"
  proof -
    from en obtain a b where
      a: "entries extract_method items = Inr a"
      and b: "entries extract_method (concat pages) = Inr b" and ab: "ens = a @ b"
      using entries_append[of extract_method items "concat pages" ens] by auto
    have p: "extract_page extract_method data [] = Inr (enumerate_from 0 a)"
      using extract_page_entries[OF keyed dense_Nil assms(2,3) a] by simp
    have d: "dense (enumerate_from 0 a)"
      using dense_enumerate[OF dense_Nil, of a] by simp
    define k where "k = fuel - Suc (length pages)"
    have k: "fuel = length pages + Suc k"
      using fuel by (simp add: k_def)
    have "follow_next api_headers (length pages + Suc k) e field extract_method cur
            (enumerate_from 0 a) s
            = follow_next api_headers (Suc k) e field extract_method cur'
                (enumerate_from 0 a @ enumerate_from (length (enumerate_from 0 a)) b) s'"
      using keyed sv d b by (rule follow_next_served)
    also have "\<dots> = Some (Inr (enumerate_from 0 a @ enumerate_from (length (enumerate_from 0 a)) b), s')"
      using fin by simp
    also have "enumerate_from 0 a @ enumerate_from (length (enumerate_from 0 a)) b
                 = enumerate_from 0 ens"
      by (simp add: ab enumerate_from_append)
    finally have "follow_next api_headers fuel e field extract_method cur (enumerate_from 0 a) s
                    = Some (Inr (enumerate_from 0 ens), s')"
      by (simp only: k)
    then show ?thesis
      using p assms(4) by (simp add: extract_data_of_def)
  qed
  have keys: "map fst rs = map int [0..<length rs]"
    if "extract_data_of api_headers fuel e field data all_pages extract_method s
              = Some (Inr rs, s'')" for all_pages rs s''
  proof -
    have "dense rs" using keyed that by (rule extract_data_of_dense)
    then show ?thesis by (simp add: dense_def)
  qed
  show ?thesis using first all keys by blast
qed

theorem extract_data_pages_witness:
  "extract_artist \<in> {extract_artist, extract_album, extract_track}
   \<and> subscript page1 (PStr ''items'') = Inr (PList [artist_item ''a'', artist_item ''b''])
   \<and> py_iter (PList [artist_item ''a'', artist_item ''b''])
       = Inr [artist_item ''a'', artist_item ''b'']
   \<and> subscript page1 (PStr ''next'') = Inr (PStr ''p2'')
   \<and> entries extract_artist [artist_item ''a'', artist_item ''b'']
       = Inr [artist_entry ''a'', artist_entry ''b'']
   \<and> extract_data (Suc (Suc (Suc 0))) (stub_env paged_api) ''artists'' page1 False extract_artist
        client0
       = Some (Inr [(0, artist_entry ''a''), (1, artist_entry ''b'')], client0)
   \<and> entries extract_artist
        ([artist_item ''a'', artist_item ''b'']
         @ concat [[artist_item ''c'', artist_item ''d''], [artist_item ''e'']])
       = Inr [artist_entry ''a'', artist_entry ''b'', artist_entry ''c'', artist_entry ''d'',
              artist_entry ''e'']
   \<and> map_option fst
        (served get_api_headers (stub_env paged_api) ''artists'' (PStr ''p2'')
           [[artist_item ''c'', artist_item ''d''], [artist_item ''e'']] client0) = Some PNone
   \<and> map_option fst
        (extract_data (Suc (Suc (Suc 0))) (stub_env paged_api) ''artists'' page1 True
           extract_artist client0)
       = Some (Inr [(0, artist_entry ''a''), (1, artist_entry ''b''), (2, artist_entry ''c''),
                    (3, artist_entry ''d''), (4, artist_entry ''e'')])"
  using extract_data_pages [of extract_artist page1
          "PList [artist_item ''a'', artist_item ''b'']" "[artist_item ''a'', artist_item ''b'']"
          "PStr ''p2''" "[artist_entry ''a'', artist_entry ''b'']" get_api_headers
          "Suc (Suc (Suc 0))" "stub_env paged_api" "''artists''" client0
          "[[artist_item ''c'', artist_item ''d''], [artist_item ''e'']]"
          "[artist_entry ''a'', artist_entry ''b'', artist_entry ''c'', artist_entry ''d'',
            artist_entry ''e'']"
          PNone
          "snd (the (served get_api_headers (stub_env paged_api) ''artists'' (PStr ''p2'')
                       [[artist_item ''c'', artist_item ''d''], [artist_item ''e'']] client0))"]
  by (simp add: run_defs paged_api_def json_response_def page_def page1_def artist_item_def
        artist_entry_def entry_def extract_artist_def extract_data_def extract_data_of_def
        extract_page_def page_request_def enumerate_from_def)

text \<open>
  C6, as the claim states it, fails: when the response to a cursor has status 500 and a
  body that is not JSON, reading the error message raises, and the records of the first
  page are lost with the exception.
\<close>

theorem pagination_raises_on_undecodable_error:
  "status_code (respond (stub_env broken_api)
      (sent (snd (get_api_headers (stub_env broken_api) client0)))
      (page_request ''p2'' (Bearer (PStr ''APP'')))) = 500
   \<and> map_option fst
        (extract_data (Suc (Suc (Suc 0))) (stub_env broken_api) ''artists'' page1 True
           extract_artist client0)
       = Some (Inl JSONDecodeError)"
  by (simp add: run_defs broken_api_def page_def page1_def artist_item_def
        extract_artist_def extract_data_def extract_data_of_def extract_page_def
        page_request_def report_error_def)

text \<open>
  C6, amended. With \<open>all_pages\<close> true, when the remote side has served \<open>pages\<close>
  along the cursors and answers the next cursor with a status other than 200 and a body
  that carries an error message, the loop stops there: the message is printed, that
  request is the last one sent, and the result holds the records of the first page and
  of the pages served, keyed 0, 1, ..., with no exception. \<open>api_headers\<close> is
  \<open>_get_api_headers\<close> of either client.
\<close>

theorem pagination_stops_on_error:
  assumes "extract_method \<in> {extract_artist, extract_album, extract_track}"
    and "subscript data (PStr ''items'') = Inr its" and "py_iter its = Inr items"
    and "subscript data (PStr ''next'') = Inr cur"
    and "entries extract_method (items @ concat pages) = Inr ens"
    and "served api_headers e field cur pages s = Some (PStr u, s1)" and "u \<noteq> []"
    and "api_headers e s1 = (Inr hdr, s2)"
    and "status_code (respond e (sent s2) (page_request u hdr)) \<noteq> 200"
    and "error_message (respond e (sent s2) (page_request u hdr)) = Some msg"
    and "length pages < fuel"
  shows "extract_data_of api_headers fuel e field data True extract_method s
           = Some (Inr (enumerate_from 0 ens),
                   print (''Error getting results: '' @ msg)
                     (s2\<lparr>sent := sent s2 @ [page_request u hdr]\<rparr>))"
proof -
  have keyed: "keyed_by_size extract_method"
    using assms(1) by (rule source_extractors_keyed)
  from assms(5) obtain a b where
    a: "entries extract_method items = Inr a"
    and b: "entries extract_method (concat pages) = Inr b" and ab: "ens = a @ b"
    using entries_append[of extract_method items "concat pages" ens] by auto
  have p: "extract_page extract_method data [] = Inr (enumerate_from 0 a)"
    using extract_page_entries[OF keyed dense_Nil assms(2,3) a] by simp
  have d: "dense (enumerate_from 0 a)"
    using dense_enumerate[OF dense_Nil, of a] by simp
  define k where "k = fuel - Suc (length pages)"
  have k: "fuel = length pages + Suc k"
    using assms(11) by (simp add: k_def)
  have acc: "enumerate_from 0 a @ enumerate_from (length (enumerate_from 0 a)) b
               = enumerate_from 0 ens"
    by (simp add: ab enumerate_from_append)
  have "follow_next api_headers (length pages + Suc k) e field extract_method cur
          (enumerate_from 0 a) s
          = follow_next api_headers (Suc k) e field extract_method (PStr u)
              (enumerate_from 0 a @ enumerate_from (length (enumerate_from 0 a)) b) s1"
    using keyed assms(6) d b by (rule follow_next_served)
  also have "\<dots> = Some (Inr (enumerate_from 0 a @ enumerate_from (length (enumerate_from 0 a)) b),
                          print (''Error getting results: '' @ msg)
                            (s2\<lparr>sent := sent s2 @ [page_request u hdr]\<rparr>))"
    using assms(7,8,9,10) by (rule follow_next_stops)
  finally have "follow_next api_headers fuel e field extract_method cur (enumerate_from 0 a) s
                  = Some (Inr (enumerate_from 0 ens),
                          print (''Error getting results: '' @ msg)
                            (s2\<lparr>sent := sent s2 @ [page_request u hdr]\<rparr>))"
    by (simp only: k acc)
  then show ?thesis
    using p assms(4) by (simp add: extract_data_of_def)
qed

theorem pagination_stops_on_error_witness:
  "extract_artist \<in> {extract_artist, extract_album, extract_track}
   \<and> subscript page1 (PStr ''items'') = Inr (PList [artist_item ''a'', artist_item ''b''])
   \<and> py_iter (PList [artist_item ''a'', artist_item ''b''])
       = Inr [artist_item ''a'', artist_item ''b'']
   \<and> subscript page1 (PStr ''next'') = Inr (PStr ''p2'')
   \<and> entries extract_artist ([artist_item ''a'', artist_item ''b''] @ concat [])
       = Inr [artist_entry ''a'', artist_entry ''b'']
   \<and> served get_api_headers (stub_env failing_api) ''artists'' (PStr ''p2'') [] client0
       = Some (PStr ''p2'', client0)
   \<and> get_api_headers (stub_env failing_api) client0
       = (Inr (Bearer (PStr ''APP'')), snd (get_api_headers (stub_env failing_api) client0))
   \<and> status_code (respond (stub_env failing_api)
        (sent (snd (get_api_headers (stub_env failing_api) client0)))
        (page_request ''p2'' (Bearer (PStr ''APP'')))) = 500
   \<and> error_message (respond (stub_env failing_api)
        (sent (snd (get_api_headers (stub_env failing_api) client0)))
        (page_request ''p2'' (Bearer (PStr ''APP'')))) = Some ''Server error''
   \<and> extract_data (Suc 0) (stub_env failing_api) ''artists'' page1 True extract_artist client0
       = Some (Inr [(0, artist_entry ''a''), (1, artist_entry ''b'')],
               print ''Error getting results: Server error''
                 ((snd (get_api_headers (stub_env failing_api) client0))
                    \<lparr>sent := [auth_request client0 get_generic_auth_params,
                              page_request ''p2'' (Bearer (PStr ''APP''))]\<rparr>))"
  using pagination_stops_on_error [of extract_artist page1
          "PList [artist_item ''a'', artist_item ''b'']" "[artist_item ''a'', artist_item ''b'']"
          "PStr ''p2''" "[]" "[artist_entry ''a'', artist_entry ''b'']" get_api_headers
          "stub_env failing_api" "''artists''" client0 "''p2''" client0
          "Bearer (PStr ''APP'')" "snd (get_api_headers (stub_env failing_api) client0)"
          "''Server error''" "Suc 0"]
  by (simp add: run_defs failing_api_def json_response_def error_body_def error_message_def
        page_def page1_def artist_item_def artist_entry_def entry_def extract_artist_def
        extract_data_def extract_data_of_def extract_page_def page_request_def
        report_error_def enumerate_from_def print_def)

end
